theory Spec2Isabelle
  imports Main
begin

section \<open>Python values: tensors, scalars, layer outputs\<close>

text \<open>
  A tensor is its shape, its elements in row-major order (each element stands for
  the bit pattern of the stored number), the device holding it and the autograd
  flag that \<open>detach\<close> clears.
\<close>

datatype device = CPU | GPU nat

record tensor =
  shape :: "nat list"
  data :: "int list"
  device :: device
  requires_grad :: bool

text \<open>
  Scalars are the objects whose type is in neither registry of \<open>utils.py\<close>.
  Python compares \<open>True == 1\<close> as equal although the types differ, so the type of
  a scalar is kept apart from its value.
\<close>

datatype scalar = PyNone | PyBool bool | PyInt int | PyStr string

datatype scalar_type = NoneType | bool_type | int_type | str_type

fun type_of_scalar :: "scalar \<Rightarrow> scalar_type" where
  "type_of_scalar PyNone = NoneType"
| "type_of_scalar (PyBool b) = bool_type"
| "type_of_scalar (PyInt i) = int_type"
| "type_of_scalar (PyStr s) = str_type"

text \<open>Python's \<open>==\<close> on two scalars: \<open>bool\<close> is a subclass of \<open>int\<close>.\<close>

fun scalar_eq :: "scalar \<Rightarrow> scalar \<Rightarrow> bool" where
  "scalar_eq (PyBool a) (PyInt b) = ((if a then 1 else 0) = b)"
| "scalar_eq (PyInt a) (PyBool b) = (a = (if b then 1 else 0))"
| "scalar_eq a b = (a = b)"

text \<open>
  A layer output is a tensor, a tuple, a list, a Huggingface
  \<open>BaseModelOutputWithPast\<close> (its four fields \<open>last_hidden_state\<close>,
  \<open>past_key_values\<close>, \<open>hidden_states\<close>, \<open>attentions\<close>) or a scalar.
\<close>

datatype obj =
    Tensor tensor
  | PyTuple "obj list"
  | PyList "obj list"
  | BaseModelOutputWithPast obj obj obj obj
  | Scalar scalar

datatype error =
    IndexError
  | AssertionError
  | TypeError
  | KeyError
  | AttributeError
  | NotImplementedError
  | ValueError
  | PartiallyDefinedException
  | UnevenShardError

section \<open>The node tree of \<open>utils.py\<close>\<close>

text \<open>
  \<open>TensorNode\<close> stores the shape of the tensor it stands for (\<open>val=obj.shape\<close>),
  an internal node its children, and a scalar node is the scalar object itself.
\<close>

datatype node =
    TensorNode "nat list"
  | TupleNode "node list"
  | ListNode "node list"
  | BaseModelOutputWithPastNode "node list"
  | ScalarNode scalar

datatype node_type =
    TensorNode_type
  | TupleNode_type
  | ListNode_type
  | BaseModelOutputWithPastNode_type
  | scalar_node_type scalar_type

fun type_of_node :: "node \<Rightarrow> node_type" where
  "type_of_node (TensorNode v) = TensorNode_type"
| "type_of_node (TupleNode cs) = TupleNode_type"
| "type_of_node (ListNode cs) = ListNode_type"
| "type_of_node (BaseModelOutputWithPastNode cs) = BaseModelOutputWithPastNode_type"
| "type_of_node (ScalarNode s) = scalar_node_type (type_of_scalar s)"

fun is_leaf_obj :: "obj \<Rightarrow> bool" where
  "is_leaf_obj (Tensor t) = True"
| "is_leaf_obj x = False"

fun is_internal_obj :: "obj \<Rightarrow> bool" where
  "is_internal_obj (PyTuple xs) = True"
| "is_internal_obj (PyList xs) = True"
| "is_internal_obj (BaseModelOutputWithPast a b c d) = True"
| "is_internal_obj x = False"

fun is_leaf_node :: "node \<Rightarrow> bool" where
  "is_leaf_node (TensorNode v) = True"
| "is_leaf_node n = False"

fun is_internal_node :: "node \<Rightarrow> bool" where
  "is_internal_node (TupleNode cs) = True"
| "is_internal_node (ListNode cs) = True"
| "is_internal_node (BaseModelOutputWithPastNode cs) = True"
| "is_internal_node n = False"

fun children :: "node \<Rightarrow> node list" where
  "children (TupleNode cs) = cs"
| "children (ListNode cs) = cs"
| "children (BaseModelOutputWithPastNode cs) = cs"
| "children n = []"

subsection \<open>\<open>_flatten\<close>\<close>

text \<open>
  \<open>_dfs\<close> of \<open>_flatten\<close> appends to the two lists \<open>order\<close> and \<open>leaves\<close>;
  the model passes both along. An internal node is appended to \<open>order\<close> before its
  children are visited and is filled in afterwards: the entry of \<open>order\<close> is the
  same object, so the model writes the finished node at the index where the empty
  one was appended.
\<close>

function flatten_dfs :: "obj \<Rightarrow> node list \<times> obj list \<Rightarrow> node \<times> node list \<times> obj list"
  and flatten_children ::
    "obj list \<Rightarrow> node list \<times> obj list \<Rightarrow> node list \<times> node list \<times> obj list"
where
  "flatten_dfs (Tensor t) (order, leaves) =
     (let leaf_node = TensorNode (shape t)
      in (leaf_node, order @ [leaf_node], leaves @ [Tensor t]))"
| "flatten_dfs (PyTuple xs) (order, leaves) =
     (case flatten_children xs (order @ [TupleNode []], leaves) of
        (cs, order', leaves') \<Rightarrow>
          (TupleNode cs, order'[length order := TupleNode cs], leaves'))"
| "flatten_dfs (PyList xs) (order, leaves) =
     (case flatten_children xs (order @ [ListNode []], leaves) of
        (cs, order', leaves') \<Rightarrow>
          (ListNode cs, order'[length order := ListNode cs], leaves'))"
| "flatten_dfs (BaseModelOutputWithPast a b c d) (order, leaves) =
     (case flatten_children [a, b, c, d]
             (order @ [BaseModelOutputWithPastNode []], leaves) of
        (cs, order', leaves') \<Rightarrow>
          (BaseModelOutputWithPastNode cs,
           order'[length order := BaseModelOutputWithPastNode cs], leaves'))"
| "flatten_dfs (Scalar s) (order, leaves) =
     (let scalar_node = ScalarNode s
      in (scalar_node, order @ [scalar_node], leaves))"
| "flatten_children [] st = ([], st)"
| "flatten_children (child # rest) st =
     (case flatten_dfs child st of
        (n, st') \<Rightarrow>
          (case flatten_children rest st' of
             (ns, st'') \<Rightarrow> (n # ns, st'')))"
  by pat_completeness auto
termination
proof (relation "measure (\<lambda>x. case x of
         Inl (x, st) \<Rightarrow> 5 * size x
       | Inr (xs, st) \<Rightarrow> size_list (\<lambda>x. 5 * size x) xs)")
  have le: "size_list (\<lambda>x. 5 * size x) xs \<le> 5 * size_list size xs" for xs :: "obj list"
    by (induction xs) auto
  fix xs :: "obj list" and order :: "node list" and leaves :: "obj list"
  show "(Inr (xs, order @ [TupleNode []], leaves), Inl (PyTuple xs, order, leaves))
      \<in> measure (\<lambda>x. case x of
         Inl (x, st) \<Rightarrow> 5 * size x
       | Inr (xs, st) \<Rightarrow> size_list (\<lambda>x. 5 * size x) xs)"
    using le [of xs] by simp
  show "(Inr (xs, order @ [ListNode []], leaves), Inl (PyList xs, order, leaves))
      \<in> measure (\<lambda>x. case x of
         Inl (x, st) \<Rightarrow> 5 * size x
       | Inr (xs, st) \<Rightarrow> size_list (\<lambda>x. 5 * size x) xs)"
    using le [of xs] by simp
qed auto

definition flatten :: "obj \<Rightarrow> node \<times> obj list" where
  "flatten root_obj =
     (case flatten_dfs root_obj ([], []) of
        (n, order, leaves) \<Rightarrow> (order ! 0, leaves))"

subsection \<open>\<open>_unflatten\<close>\<close>

text \<open>
  The reconstruction methods of the three internal nodes. The constructor of
  \<open>BaseModelOutputWithPast\<close> takes at most four positional arguments, each with
  the default \<open>None\<close>.
\<close>

definition TupleNode_unflatten :: "obj list \<Rightarrow> error + obj" where
  "TupleNode_unflatten cs = Inr (PyTuple cs)"

definition ListNode_unflatten :: "obj list \<Rightarrow> error + obj" where
  "ListNode_unflatten cs = Inr (PyList cs)"

fun BaseModelOutputWithPastNode_unflatten :: "obj list \<Rightarrow> error + obj" where
  "BaseModelOutputWithPastNode_unflatten [] =
     Inr (BaseModelOutputWithPast (Scalar PyNone) (Scalar PyNone) (Scalar PyNone) (Scalar PyNone))"
| "BaseModelOutputWithPastNode_unflatten [a] =
     Inr (BaseModelOutputWithPast a (Scalar PyNone) (Scalar PyNone) (Scalar PyNone))"
| "BaseModelOutputWithPastNode_unflatten [a, b] =
     Inr (BaseModelOutputWithPast a b (Scalar PyNone) (Scalar PyNone))"
| "BaseModelOutputWithPastNode_unflatten [a, b, c] =
     Inr (BaseModelOutputWithPast a b c (Scalar PyNone))"
| "BaseModelOutputWithPastNode_unflatten [a, b, c, d] =
     Inr (BaseModelOutputWithPast a b c d)"
| "BaseModelOutputWithPastNode_unflatten cs = Inl TypeError"

text \<open>
  \<open>_unflatten\<close> reverses the leaves and pops from the end of the reversed list;
  \<open>pop\<close> on an empty list raises \<open>IndexError\<close>. Leaves left over are ignored.
\<close>

fun unflatten_dfs :: "node \<Rightarrow> obj list \<Rightarrow> error + obj \<times> obj list"
  and unflatten_children :: "node list \<Rightarrow> obj list \<Rightarrow> error + obj list \<times> obj list"
where
  "unflatten_dfs (TensorNode v) leaves =
     (if leaves = [] then Inl IndexError else Inr (last leaves, butlast leaves))"
| "unflatten_dfs (TupleNode cs) leaves =
     (case unflatten_children cs leaves of
        Inl e \<Rightarrow> Inl e
      | Inr (objs, leaves') \<Rightarrow>
          (case TupleNode_unflatten objs of Inl e \<Rightarrow> Inl e | Inr x \<Rightarrow> Inr (x, leaves')))"
| "unflatten_dfs (ListNode cs) leaves =
     (case unflatten_children cs leaves of
        Inl e \<Rightarrow> Inl e
      | Inr (objs, leaves') \<Rightarrow>
          (case ListNode_unflatten objs of Inl e \<Rightarrow> Inl e | Inr x \<Rightarrow> Inr (x, leaves')))"
| "unflatten_dfs (BaseModelOutputWithPastNode cs) leaves =
     (case unflatten_children cs leaves of
        Inl e \<Rightarrow> Inl e
      | Inr (objs, leaves') \<Rightarrow>
          (case BaseModelOutputWithPastNode_unflatten objs of
             Inl e \<Rightarrow> Inl e
           | Inr x \<Rightarrow> Inr (x, leaves')))"
| "unflatten_dfs (ScalarNode s) leaves = Inr (Scalar s, leaves)"
| "unflatten_children [] leaves = Inr ([], leaves)"
| "unflatten_children (child # rest) leaves =
     (case unflatten_dfs child leaves of
        Inl e \<Rightarrow> Inl e
      | Inr (x, leaves') \<Rightarrow>
          (case unflatten_children rest leaves' of
             Inl e \<Rightarrow> Inl e
           | Inr (xs, leaves'') \<Rightarrow> Inr (x # xs, leaves'')))"

definition unflatten :: "node \<Rightarrow> obj list \<Rightarrow> error + obj" where
  "unflatten root_node leaves =
     (case unflatten_dfs root_node (rev leaves) of
        Inl e \<Rightarrow> Inl e
      | Inr (x, rest) \<Rightarrow> Inr x)"

section \<open>Node equality (\<open>__eq__\<close>)\<close>

text \<open>
  \<open>_dfs\<close> inside \<open>InternalNode.__eq__\<close>, branch by branch: mismatched types,
  two leaf nodes, two internal nodes (child counts, then \<open>all\<close> over the zipped
  children), and two scalars of one type compared with \<open>==\<close>.
\<close>

lemma size_child_less: "n \<in> set (children m) \<Longrightarrow> size n < size m"
  by (cases m) (auto simp: less_Suc_eq_le size_list_estimation')

function eq_dfs :: "node \<Rightarrow> node \<Rightarrow> bool" where
  "eq_dfs node1 node2 =
     (if type_of_node node1 \<noteq> type_of_node node2 then False
      else if is_leaf_node node1 \<and> is_leaf_node node2 then True
      else if is_internal_node node1 \<and> is_internal_node node2 then
        (if length (children node1) \<noteq> length (children node2) then False
         else list_all id (map (\<lambda>(n1, n2). eq_dfs n1 n2)
                (zip (children node1) (children node2))))
      else (case (node1, node2) of
              (ScalarNode a, ScalarNode b) \<Rightarrow> scalar_eq a b
            | _ \<Rightarrow> False))"
  by pat_completeness auto
termination
  by (relation "measure (\<lambda>(node1, node2). size node1)")
     (auto dest!: set_zip_leftD size_child_less)

declare eq_dfs.simps [simp del]

definition InternalNode_eq :: "node \<Rightarrow> node \<Rightarrow> bool" where
  "InternalNode_eq self other = eq_dfs self other"

text \<open>\<open>TensorNode.__eq__\<close>: \<open>isinstance(other, TensorNode)\<close>, then the stored values.\<close>

fun TensorNode_eq :: "node \<Rightarrow> node \<Rightarrow> bool" where
  "TensorNode_eq (TensorNode v) (TensorNode w) = (v = w)"
| "TensorNode_eq self other = False"

text \<open>
  The equality of the specification, in its words: the same node kind at every
  position, the same child count, recursively equal children; scalar nodes by
  value equality, which is Python's \<open>==\<close> (\<open>scalar_eq\<close>, under which \<open>1\<close> and
  \<open>True\<close> are equal); leaf nodes always equal.
\<close>

fun spec_node_equal :: "node \<Rightarrow> node \<Rightarrow> bool" where
  "spec_node_equal (TensorNode v) (TensorNode w) = True"
| "spec_node_equal (TupleNode xs) (TupleNode ys) = list_all2 spec_node_equal xs ys"
| "spec_node_equal (ListNode xs) (ListNode ys) = list_all2 spec_node_equal xs ys"
| "spec_node_equal (BaseModelOutputWithPastNode xs) (BaseModelOutputWithPastNode ys) =
     list_all2 spec_node_equal xs ys"
| "spec_node_equal (ScalarNode a) (ScalarNode b) = scalar_eq a b"
| "spec_node_equal n m = False"

text \<open>
  The same equality with the scalar clause that the type check of \<open>_dfs\<close>
  enforces: two scalar nodes are equal if they have the same Python type and
  equal values.
\<close>

fun typed_node_equal :: "node \<Rightarrow> node \<Rightarrow> bool" where
  "typed_node_equal (TensorNode v) (TensorNode w) = True"
| "typed_node_equal (TupleNode xs) (TupleNode ys) = list_all2 typed_node_equal xs ys"
| "typed_node_equal (ListNode xs) (ListNode ys) = list_all2 typed_node_equal xs ys"
| "typed_node_equal (BaseModelOutputWithPastNode xs) (BaseModelOutputWithPastNode ys) =
     list_all2 typed_node_equal xs ys"
| "typed_node_equal (ScalarNode a) (ScalarNode b) =
     (type_of_scalar a = type_of_scalar b \<and> scalar_eq a b)"
| "typed_node_equal n m = False"

section \<open>The distributed runtime seen by a hook\<close>

text \<open>
  \<open>initialize_distributed_backend\<close> of \<open>distributed_api.py\<close> works on the global
  \<open>_ACTIVE_BACKEND\<close>. The backend classes and \<open>GPUDeviceMesh\<close> live in
  \<open>flex_model.distributed.backends\<close>, which is not among the sources: a backend is
  its class and its mesh, a mesh its four sizes.
\<close>

datatype DistributedType = NO | MULTI_CPU | MULTI_GPU | DEEPSPEED | FSDP | MEGATRON_LM | XLA

datatype backend_cls = TorchDistributedBackend | AccelerateDistributedBackend

record GPUDeviceMesh =
  world_size :: int
  tp_size :: int
  pp_size :: int
  dp_size :: int

record DistributedBackend =
  backend_class :: backend_cls
  device_mesh :: GPUDeviceMesh

text \<open>
  What one tensor-parallel collective sees: the size of the group, the rank of
  this process in it, and the shard every rank of the group contributes.
\<close>

record tp_comm =
  tp_world_size :: nat
  tp_rank :: nat
  peer_shards :: "nat \<Rightarrow> tensor"

type_synonym transfer_fn = "tp_comm \<Rightarrow> tensor \<Rightarrow> error + tensor"

text \<open>
  The process-wide facts a hook reads: \<open>torch.distributed.is_initialized()\<close>, the
  distributed type that \<open>accelerate.PartialState()\<close> reports, the global
  \<open>_ACTIVE_BACKEND\<close>, the answers of the active backend's methods
  \<open>activation_parallel_is_initialized\<close> and \<open>in_pipeline_parallel_group\<close>, the
  collective context, and \<open>dist.parse_collect_and_distribute_from_tensor\<close>, which
  is not among the sources and is a parameter of the model.
\<close>

record dist_runtime =
  torch_dist_initialized :: bool
  distributed_type :: DistributedType
  ACTIVE_BACKEND :: "DistributedBackend option"
  backend_act_initialized :: bool
  backend_in_pp_group :: bool
  comm :: tp_comm
  parse_collect_and_distribute ::
    "tensor \<Rightarrow> int option list \<Rightarrow> error + transfer_fn \<times> transfer_fn"

definition parse_backend :: "dist_runtime \<Rightarrow> error + backend_cls" where
  "parse_backend rt =
     (let hf_distributed =
            (if distributed_type rt = DEEPSPEED \<or> distributed_type rt = FSDP
                \<or> distributed_type rt = MEGATRON_LM
             then True else False)
      in if torch_dist_initialized rt \<and> hf_distributed then Inr AccelerateDistributedBackend
         else if torch_dist_initialized rt \<and> \<not> hf_distributed \<or> \<not> torch_dist_initialized rt
           then Inr TorchDistributedBackend
         else Inl NotImplementedError)"

text \<open>
  Modelled from the spec: \<open>GPUDeviceMesh.build\<close> and the constructors of the two
  backend classes (in \<open>flex_model.distributed.backends\<close>, not among the sources).
  The specification says that \<open>build(world_size, tp, pp, dp)\<close> validates
  \<open>world_size == tp*pp*dp\<close> and succeeds exactly then; the peer ranks it
  computes for each axis are not needed here. A backend is built from its mesh
  and keeps it.
\<close>

definition GPUDeviceMesh_build :: "int \<Rightarrow> int \<Rightarrow> int \<Rightarrow> int \<Rightarrow> error + GPUDeviceMesh" where
  "GPUDeviceMesh_build ws tp pp dp =
     (if ws = tp * pp * dp
      then Inr \<lparr>world_size = ws, tp_size = tp, pp_size = pp, dp_size = dp\<rparr>
      else Inl AssertionError)"

definition expose_distributed_backend ::
  "DistributedBackend \<Rightarrow> DistributedBackend option \<Rightarrow> DistributedBackend option" where
  "expose_distributed_backend backend active = Some backend"

text \<open>
  The result is the outcome together with the value of \<open>_ACTIVE_BACKEND\<close> when the
  call ends: an exception leaves the global as it was.
\<close>

definition initialize_distributed_backend ::
  "dist_runtime \<Rightarrow> int \<Rightarrow> int \<Rightarrow> int \<Rightarrow> int \<Rightarrow> (error + unit) \<times> DistributedBackend option"
where
  "initialize_distributed_backend rt ws tensor_parallel_size pipeline_parallel_size
       data_parallel_size =
     (if \<not> (ws = tensor_parallel_size * pipeline_parallel_size * data_parallel_size)
      then (Inl AssertionError, ACTIVE_BACKEND rt)
      else
        (case parse_backend rt of
           Inl e \<Rightarrow> (Inl e, ACTIVE_BACKEND rt)
         | Inr cls \<Rightarrow>
             (case GPUDeviceMesh_build ws tensor_parallel_size pipeline_parallel_size
                     data_parallel_size of
                Inl e \<Rightarrow> (Inl e, ACTIVE_BACKEND rt)
              | Inr mesh \<Rightarrow>
                  (Inr (),
                   expose_distributed_backend
                     \<lparr>backend_class = cls, device_mesh = mesh\<rparr> (ACTIVE_BACKEND rt)))))"

text \<open>
  \<open>activation_parallel_is_initialized\<close> and \<open>in_pipeline_parallel_group\<close> assert
  that a backend is active before they ask it.
\<close>

definition activation_parallel_is_initialized :: "dist_runtime \<Rightarrow> error + bool" where
  "activation_parallel_is_initialized rt =
     (case ACTIVE_BACKEND rt of
        None \<Rightarrow> Inl AssertionError
      | Some b \<Rightarrow> Inr (backend_act_initialized rt))"

definition in_pipeline_parallel_group :: "dist_runtime \<Rightarrow> error + bool" where
  "in_pipeline_parallel_group rt =
     (case ACTIVE_BACKEND rt of
        None \<Rightarrow> Inl AssertionError
      | Some b \<Rightarrow> Inr (backend_in_pp_group rt))"

section \<open>\<open>HookFunction\<close>\<close>

type_synonym Module = "string option"
type_synonym Namespace = "(string \<times> tensor) list"
type_synonym ModuleDict = "string list"

type_synonym edit_fn = "Module \<Rightarrow> tensor \<Rightarrow> Namespace \<Rightarrow> ModuleDict \<Rightarrow> error + tensor"

text \<open>
  The shared state of a session. \<open>output_ptr\<close> maps a module name to the list of
  tensors captured for it; \<open>None\<close> is the sink not yet set.
\<close>

record SharedState =
  output_ptr :: "(string \<rightharpoonup> tensor list) option"
  save_ctx :: Namespace
  modules :: ModuleDict
  offload_mode :: string

text \<open>The two closures that \<open>_concretize_offload_function\<close> chooses from.\<close>

datatype offload_fn = offload_tensor_to_cpu_fn | offload_tensor_to_gpu_fn

text \<open>
  The fields of a \<open>HookFunction\<close> (\<open>hook_module_name\<close> is the field \<open>module_name\<close>);
  the source writes the last six with a leading
  underscore. The four runtime functions are \<open>None\<close> until the first tensor.
\<close>

record HookFunction =
  hook_module_name :: string
  expected_shape :: "int option list"
  editing_function :: edit_fn
  unpack_idx :: int
  shared_state :: "SharedState option"
  hook_type :: "string option"
  collect :: "transfer_fn option"
  disperse :: "transfer_fn option"
  edit :: "edit_fn option"
  offload :: "offload_fn option"

definition parse_editing_function :: "edit_fn \<Rightarrow> edit_fn" where
  "parse_editing_function edit_function = edit_function"

definition default_editing_function :: edit_fn where
  "default_editing_function current_module inputs ctx mods = Inr inputs"

text \<open>
  \<open>activation.detach().to("cpu", non_blocking=True)\<close> and
  \<open>activation.detach().clone()\<close>: the same shape and elements, no autograd history,
  and for the first the host as device.
\<close>

definition detach_to_cpu :: "tensor \<Rightarrow> tensor" where
  "detach_to_cpu activation = activation\<lparr>device := CPU, requires_grad := False\<rparr>"

definition detach_clone :: "tensor \<Rightarrow> tensor" where
  "detach_clone activation = activation\<lparr>requires_grad := False\<rparr>"

text \<open>
  The guard \<open>not using_torch_dist() or (using_act_dist() and in_pp_group())\<close>,
  with Python's short-circuit evaluation.
\<close>

definition offload_guard :: "dist_runtime \<Rightarrow> error + bool" where
  "offload_guard rt =
     (if \<not> torch_dist_initialized rt then Inr True
      else
        (case activation_parallel_is_initialized rt of
           Inl e \<Rightarrow> Inl e
         | Inr False \<Rightarrow> Inr False
         | Inr True \<Rightarrow> in_pipeline_parallel_group rt))"

text \<open>
  The body shared by the two closures: \<open>output_ptr.get(self.module_name, False)\<close> is
  true for a non-empty list, which is appended to; otherwise the entry is set to
  a list of the one captured tensor.
\<close>

definition sink_store ::
  "(string \<rightharpoonup> tensor list) \<Rightarrow> string \<Rightarrow> tensor \<Rightarrow> (string \<rightharpoonup> tensor list)" where
  "sink_store sink name captured =
     (case sink name of
        None \<Rightarrow> sink(name \<mapsto> [captured])
      | Some entry \<Rightarrow>
          (if entry \<noteq> [] then sink(name \<mapsto> entry @ [captured])
           else sink(name \<mapsto> [captured])))"

definition offload_tensor ::
  "(tensor \<Rightarrow> tensor) \<Rightarrow> dist_runtime \<Rightarrow> HookFunction \<Rightarrow> tensor
     \<Rightarrow> (error + unit) \<times> HookFunction" where
  "offload_tensor capture rt self activation =
     (case shared_state self of
        None \<Rightarrow> (Inl AttributeError, self)
      | Some ss \<Rightarrow>
          (case output_ptr ss of
             None \<Rightarrow> (Inl AssertionError, self)
           | Some sink \<Rightarrow>
               (case offload_guard rt of
                  Inl e \<Rightarrow> (Inl e, self)
                | Inr False \<Rightarrow> (Inr (), self)
                | Inr True \<Rightarrow>
                    (Inr (),
                     self\<lparr>shared_state :=
                       Some (ss\<lparr>output_ptr :=
                         Some (sink_store sink (hook_module_name self) (capture activation))\<rparr>)\<rparr>))))"

definition offload_tensor_to_cpu ::
  "dist_runtime \<Rightarrow> HookFunction \<Rightarrow> tensor \<Rightarrow> (error + unit) \<times> HookFunction" where
  "offload_tensor_to_cpu = offload_tensor detach_to_cpu"

definition offload_tensor_to_gpu ::
  "dist_runtime \<Rightarrow> HookFunction \<Rightarrow> tensor \<Rightarrow> (error + unit) \<times> HookFunction" where
  "offload_tensor_to_gpu = offload_tensor detach_clone"

fun call_offload ::
  "offload_fn \<Rightarrow> dist_runtime \<Rightarrow> HookFunction \<Rightarrow> tensor \<Rightarrow> (error + unit) \<times> HookFunction"
where
  "call_offload offload_tensor_to_cpu_fn = offload_tensor_to_cpu"
| "call_offload offload_tensor_to_gpu_fn = offload_tensor_to_gpu"

text \<open>\<open>mode_to_fn[self._shared_state.offload_mode]\<close>: a dictionary with two keys.\<close>

definition concretize_offload_function :: "HookFunction \<Rightarrow> error + offload_fn" where
  "concretize_offload_function self =
     (case shared_state self of
        None \<Rightarrow> Inl AttributeError
      | Some ss \<Rightarrow>
          (if offload_mode ss = ''CPU'' then Inr offload_tensor_to_cpu_fn
           else if offload_mode ss = ''GPU'' then Inr offload_tensor_to_gpu_fn
           else Inl KeyError))"

definition concretize_editing_function :: "HookFunction \<Rightarrow> edit_fn" where
  "concretize_editing_function self = parse_editing_function (editing_function self)"

text \<open>
  \<open>_concretize_functions\<close> assigns the four fields in the order of the source, so
  an exception in a later step leaves the earlier fields set.
\<close>

definition concretize_functions ::
  "dist_runtime \<Rightarrow> HookFunction \<Rightarrow> tensor \<Rightarrow> (error + unit) \<times> HookFunction" where
  "concretize_functions rt self tensor =
     (case parse_collect_and_distribute rt tensor (expected_shape self) of
        Inl e \<Rightarrow> (Inl e, self)
      | Inr (c, d) \<Rightarrow>
          (let self1 = self\<lparr>collect := Some c, disperse := Some d\<rparr>;
               self2 = self1\<lparr>edit := Some (concretize_editing_function self1)\<rparr>
           in case concretize_offload_function self2 of
                Inl e \<Rightarrow> (Inl e, self2)
              | Inr f \<Rightarrow> (Inr (), self2\<lparr>offload := Some f\<rparr>)))"

text \<open>
  The four calls of \<open>_template_handle_tensor\<close> between the check of the runtime
  functions and the shape assertion. Calling a field that is \<open>None\<close> raises
  \<open>TypeError\<close>; reading \<open>save_ctx\<close> of a missing shared state raises
  \<open>AttributeError\<close> before the call of \<open>_edit\<close>.
\<close>

definition run_functions ::
  "dist_runtime \<Rightarrow> HookFunction \<Rightarrow> Module \<Rightarrow> tensor \<Rightarrow> (error + tensor) \<times> HookFunction"
where
  "run_functions rt self module tensor =
     (case collect self of
        None \<Rightarrow> (Inl TypeError, self)
      | Some collect_fn \<Rightarrow>
     (case collect_fn (comm rt) tensor of
        Inl e \<Rightarrow> (Inl e, self)
      | Inr t1 \<Rightarrow>
     (case offload self of
        None \<Rightarrow> (Inl TypeError, self)
      | Some off \<Rightarrow>
     (case call_offload off rt self t1 of
        (Inl e, self') \<Rightarrow> (Inl e, self')
      | (Inr u, self') \<Rightarrow>
     (case shared_state self' of
        None \<Rightarrow> (Inl AttributeError, self')
      | Some ss \<Rightarrow>
     (case edit self' of
        None \<Rightarrow> (Inl TypeError, self')
      | Some edit_fn \<Rightarrow>
     (case edit_fn module t1 (save_ctx ss) (modules ss) of
        Inl e \<Rightarrow> (Inl e, self')
      | Inr t2 \<Rightarrow>
     (case disperse self' of
        None \<Rightarrow> (Inl TypeError, self')
      | Some disperse_fn \<Rightarrow>
     (case disperse_fn (comm rt) t2 of
        Inl e \<Rightarrow> (Inl e, self')
      | Inr t3 \<Rightarrow> (Inr t3, self'))))))))))"

text \<open>
  The check of the runtime functions, as the source writes it: the second branch
  tests \<open>not all(fns_are_undefined)\<close>.
\<close>

definition check_functions ::
  "dist_runtime \<Rightarrow> HookFunction \<Rightarrow> tensor \<Rightarrow> (error + unit) \<times> HookFunction" where
  "check_functions rt self tensor =
     (let fns_are_undefined =
            [Option.is_none (collect self), Option.is_none (disperse self),
             Option.is_none (edit self), Option.is_none (offload self)]
      in if list_all id fns_are_undefined then concretize_functions rt self tensor
         else if \<not> list_all id fns_are_undefined then (Inr (), self)
         else (Inl PartiallyDefinedException, self))"

definition template_handle_tensor ::
  "dist_runtime \<Rightarrow> HookFunction \<Rightarrow> Module \<Rightarrow> tensor \<Rightarrow> (error + tensor) \<times> HookFunction"
where
  "template_handle_tensor rt self module tensor =
     (let start_shape = shape tensor
      in case check_functions rt self tensor of
           (Inl e, self1) \<Rightarrow> (Inl e, self1)
         | (Inr u, self1) \<Rightarrow>
             (case run_functions rt self1 module tensor of
                (Inl e, self2) \<Rightarrow> (Inl e, self2)
              | (Inr t3, self2) \<Rightarrow>
                  (if start_shape = shape t3 then (Inr t3, self2)
                   else (Inl AssertionError, self2))))"

subsection \<open>Unpacking and repacking layer outputs\<close>

text \<open>
  Python's list indexing and slicing with an index that may be negative:
  \<open>xs[i]\<close> raises \<open>IndexError\<close> out of range, the slices \<open>xs[:i]\<close> and
  \<open>xs[i:]\<close> clamp.
\<close>

definition py_getitem :: "'a list \<Rightarrow> int \<Rightarrow> error + 'a" where
  "py_getitem xs i =
     (let n = int (length xs); j = (if i < 0 then i + n else i)
      in if 0 \<le> j \<and> j < n then Inr (xs ! nat j) else Inl IndexError)"

definition py_slice_bound :: "'a list \<Rightarrow> int \<Rightarrow> nat" where
  "py_slice_bound xs i =
     (let n = int (length xs); j = (if i < 0 then i + n else i)
      in if j < 0 then 0 else if n < j then length xs else nat j)"

definition py_slice_to :: "'a list \<Rightarrow> int \<Rightarrow> 'a list" where
  "py_slice_to xs i = take (py_slice_bound xs i) xs"

definition py_slice_from :: "'a list \<Rightarrow> int \<Rightarrow> 'a list" where
  "py_slice_from xs i = drop (py_slice_bound xs i) xs"

definition repack :: "node \<Rightarrow> obj list \<Rightarrow> obj list \<Rightarrow> obj \<Rightarrow> error + obj" where
  "repack treedef left_leaves right_leaves edited_tensor =
     unflatten treedef (left_leaves @ [edited_tensor] @ right_leaves)"

definition unpack_layer_outputs ::
  "HookFunction \<Rightarrow> obj \<Rightarrow> error + obj \<times> (obj \<Rightarrow> error + obj)" where
  "unpack_layer_outputs self outputs =
     (case flatten outputs of
        (treedef, leaves) \<Rightarrow>
          (let left_leaves = py_slice_to leaves (unpack_idx self)
           in case py_getitem leaves (unpack_idx self) of
                Inl e \<Rightarrow> Inl e
              | Inr tensor \<Rightarrow>
                  (let right_leaves = py_slice_from leaves (unpack_idx self + 1)
                   in if tensor = Scalar PyNone then Inl AssertionError
                      else Inr (tensor, repack treedef left_leaves right_leaves))))"

text \<open>
  \<open>_template_handle_layer_outputs\<close>. The selected leaf is passed on as a tensor;
  for any other object the first line of \<open>_template_handle_tensor\<close>,
  \<open>tensor.shape\<close>, raises \<open>AttributeError\<close>.
\<close>

definition template_handle_layer_outputs ::
  "dist_runtime \<Rightarrow> HookFunction \<Rightarrow> Module \<Rightarrow> obj \<Rightarrow> (error + obj) \<times> HookFunction" where
  "template_handle_layer_outputs rt self module inputs_or_outputs =
     (case unpack_layer_outputs self inputs_or_outputs of
        Inl e \<Rightarrow> (Inl e, self)
      | Inr (tensor, repack_fn) \<Rightarrow>
          (case tensor of
             Tensor t \<Rightarrow>
               (case template_handle_tensor rt self module t of
                  (Inl e, self') \<Rightarrow> (Inl e, self')
                | (Inr t', self') \<Rightarrow> (repack_fn (Tensor t'), self'))
           | _ \<Rightarrow> (Inl AttributeError, self)))"

section \<open>Activation transfer\<close>

text \<open>
  Modelled from the spec: \<open>dist.parse_collect_and_distribute_from_tensor\<close> and the
  two functions it returns are not among the sources. The specification (4.3) says:
  an entry of the expected shape that is an integer different from the observed
  size marks the sharded axis; with no such axis both functions are the identity;
  with exactly one, \<open>collect\<close> gathers the shards of the tensor-parallel group
  along that axis and concatenates them in rank order, and \<open>disperse\<close> slices the
  full tensor along that axis into \<open>tp_size\<close> contiguous equal pieces and keeps
  the piece of the local rank; a size that does not divide evenly is an error.
  More than one sharded axis is not supported. The specification asks that the
  expected shape have the rank of the tensor and the shards of a group one shape;
  the model refuses inputs that do not.
\<close>

definition sharded_axes :: "nat list \<Rightarrow> int option list \<Rightarrow> nat list" where
  "sharded_axes shp expected =
     filter (\<lambda>i. case expected ! i of None \<Rightarrow> False | Some n \<Rightarrow> n \<noteq> int (shp ! i))
       [0..<length shp]"

definition unity :: transfer_fn where
  "unity c t = Inr t"

text \<open>
  Modelled from the spec: in row-major order a tensor is \<open>outer\<close> consecutive
  rows, \<open>outer\<close> the product of the sizes before the axis, each row holding the
  elements of one index range of the axis; \<open>block width k xs\<close> is row \<open>k\<close>.
\<close>

definition block :: "nat \<Rightarrow> nat \<Rightarrow> 'a list \<Rightarrow> 'a list" where
  "block width k xs = take width (drop (k * width) xs)"

text \<open>
  Modelled from the spec: the all-gather along \<open>axis\<close>; the local tensor is the
  contribution of the local rank.
\<close>

definition all_gather_tp :: "nat \<Rightarrow> transfer_fn" where
  "all_gather_tp axis c t =
     (let g = tp_world_size c;
          shards = map (\<lambda>r. if r = tp_rank c then t else peer_shards c r) [0..<g]
      in if length (shape t) \<le> axis then Inl IndexError
         else if \<not> list_all (\<lambda>s. shape s = shape t) shards then Inl ValueError
         else
           (let width = (shape t ! axis) * prod_list (drop (Suc axis) (shape t));
                outer = prod_list (take axis (shape t))
            in Inr (t\<lparr>shape := (shape t)[axis := g * (shape t ! axis)],
                      data := concat (map (\<lambda>k. concat (map (\<lambda>s. block width k (data s)) shards))
                                [0..<outer])\<rparr>)))"

text \<open>Modelled from the spec: the slice of the local rank along \<open>axis\<close>.\<close>

definition scatter_tp :: "nat \<Rightarrow> transfer_fn" where
  "scatter_tp axis c t =
     (let g = tp_world_size c
      in if length (shape t) \<le> axis then Inl IndexError
         else if g = 0 \<or> (shape t ! axis) mod g \<noteq> 0 then Inl UnevenShardError
         else
           (let d = (shape t ! axis) div g;
                width = d * prod_list (drop (Suc axis) (shape t));
                outer = prod_list (take axis (shape t))
            in Inr (t\<lparr>shape := (shape t)[axis := d],
                      data := concat (map (\<lambda>k. block width (k * g + tp_rank c) (data t))
                                [0..<outer])\<rparr>)))"

text \<open>Modelled from the spec: the choice between the identity and the collectives.\<close>

definition parse_collect_and_distribute_from_tensor ::
  "tensor \<Rightarrow> int option list \<Rightarrow> error + transfer_fn \<times> transfer_fn" where
  "parse_collect_and_distribute_from_tensor t expected =
     (if length expected \<noteq> length (shape t) then Inl ValueError
      else
        (case sharded_axes (shape t) expected of
           [] \<Rightarrow> Inr (unity, unity)
         | [axis] \<Rightarrow> Inr (all_gather_tp axis, scatter_tp axis)
         | _ \<Rightarrow> Inl NotImplementedError))"

text \<open>
  A valid shard: the axis exists, the local rank is in the group, the data fill
  the shape, and every other rank of the group contributes a shard of the same
  shape.
\<close>

definition valid_shards :: "nat \<Rightarrow> tp_comm \<Rightarrow> tensor \<Rightarrow> bool" where
  "valid_shards axis c t \<longleftrightarrow>
     axis < length (shape t) \<and> tp_rank c < tp_world_size c \<and>
     length (data t) = prod_list (shape t) \<and>
     list_all (\<lambda>r. r = tp_rank c \<or>
                  shape (peer_shards c r) = shape t \<and>
                  length (data (peer_shards c r)) = prod_list (shape t))
       [0..<tp_world_size c]"

section \<open>What \<open>_flatten\<close> computes\<close>

text \<open>
  The template, the leaves and the visiting order of an object, written as plain
  recursions; \<open>flatten_dfs_eq\<close> below shows that the traversal computes them.
\<close>

fun node_of :: "obj \<Rightarrow> node" where
  "node_of (Tensor t) = TensorNode (shape t)"
| "node_of (PyTuple xs) = TupleNode (map node_of xs)"
| "node_of (PyList xs) = ListNode (map node_of xs)"
| "node_of (BaseModelOutputWithPast a b c d) =
     BaseModelOutputWithPastNode [node_of a, node_of b, node_of c, node_of d]"
| "node_of (Scalar s) = ScalarNode s"

fun leaves_of :: "obj \<Rightarrow> obj list" where
  "leaves_of (Tensor t) = [Tensor t]"
| "leaves_of (PyTuple xs) = concat (map leaves_of xs)"
| "leaves_of (PyList xs) = concat (map leaves_of xs)"
| "leaves_of (BaseModelOutputWithPast a b c d) =
     leaves_of a @ leaves_of b @ leaves_of c @ leaves_of d"
| "leaves_of (Scalar s) = []"

fun order_of :: "obj \<Rightarrow> node list" where
  "order_of (Tensor t) = [TensorNode (shape t)]"
| "order_of (PyTuple xs) = TupleNode (map node_of xs) # concat (map order_of xs)"
| "order_of (PyList xs) = ListNode (map node_of xs) # concat (map order_of xs)"
| "order_of (BaseModelOutputWithPast a b c d) =
     BaseModelOutputWithPastNode [node_of a, node_of b, node_of c, node_of d]
       # (order_of a @ order_of b @ order_of c @ order_of d)"
| "order_of (Scalar s) = [ScalarNode s]"

fun count_leaf_nodes :: "node \<Rightarrow> nat" where
  "count_leaf_nodes (TensorNode v) = 1"
| "count_leaf_nodes (TupleNode cs) = sum_list (map count_leaf_nodes cs)"
| "count_leaf_nodes (ListNode cs) = sum_list (map count_leaf_nodes cs)"
| "count_leaf_nodes (BaseModelOutputWithPastNode cs) = sum_list (map count_leaf_nodes cs)"
| "count_leaf_nodes (ScalarNode s) = 0"

section \<open>Repeated calls and index arithmetic\<close>

text \<open>
  Calling the concretized offload function on a list of tensors, one call after
  the other; the first exception ends the sequence.
\<close>

fun offload_calls ::
  "offload_fn \<Rightarrow> dist_runtime \<Rightarrow> HookFunction \<Rightarrow> tensor list \<Rightarrow> (error + unit) \<times> HookFunction"
where
  "offload_calls f rt self [] = (Inr (), self)"
| "offload_calls f rt self (t # ts) =
     (case call_offload f rt self t of
        (Inl e, self') \<Rightarrow> (Inl e, self')
      | (Inr u, self') \<Rightarrow> offload_calls f rt self' ts)"

text \<open>What \<open>output_ptr.get(name)\<close> of the hook's shared state reads.\<close>

definition sink_entry :: "HookFunction \<Rightarrow> string \<Rightarrow> tensor list option" where
  "sink_entry self name =
     (case shared_state self of
        None \<Rightarrow> None
      | Some ss \<Rightarrow> (case output_ptr ss of None \<Rightarrow> None | Some sink \<Rightarrow> sink name))"

fun capture_of :: "offload_fn \<Rightarrow> tensor \<Rightarrow> tensor" where
  "capture_of offload_tensor_to_cpu_fn = detach_to_cpu"
| "capture_of offload_tensor_to_gpu_fn = detach_clone"

definition entry_list :: "tensor list option \<Rightarrow> tensor list" where
  "entry_list e = (case e of None \<Rightarrow> [] | Some ts \<Rightarrow> ts)"

text \<open>
  An index is in range for Python if \<open>xs[i]\<close> does not raise; \<open>py_index\<close> is
  the position it then reads.
\<close>

definition in_range :: "'a list \<Rightarrow> int \<Rightarrow> bool" where
  "in_range xs i \<longleftrightarrow> - int (length xs) \<le> i \<and> i < int (length xs)"

definition py_index :: "'a list \<Rightarrow> int \<Rightarrow> nat" where
  "py_index xs i = nat (if i < 0 then i + int (length xs) else i)"

text \<open>A leaf that may stand in the place of another: a tensor of the same shape.\<close>

definition same_leaf :: "obj \<Rightarrow> obj \<Rightarrow> bool" where
  "same_leaf a b \<longleftrightarrow> is_leaf_obj b \<and> node_of b = node_of a"

section \<open>Example values\<close>

text \<open>
  A two-by-two tensor on a device, a session that offloads to the host, a hook on
  it before its first call, and a single process without \<open>torch.distributed\<close>
  whose transfer functions are the identity.
\<close>

definition example_tensor :: tensor where
  "example_tensor = \<lparr>shape = [2, 2], data = [1, 2, 3, 4], device = GPU 0, requires_grad = True\<rparr>"

definition example_shared_state :: SharedState where
  "example_shared_state =
     \<lparr>output_ptr = Some Map.empty, save_ctx = [], modules = [], offload_mode = ''CPU''\<rparr>"

definition example_hook :: HookFunction where
  "example_hook =
     \<lparr>hook_module_name = ''layers.0'', expected_shape = [None, None],
      editing_function = default_editing_function, unpack_idx = 0,
      shared_state = Some example_shared_state, hook_type = Some ''forward'',
      collect = None, disperse = None, edit = None, offload = None\<rparr>"

definition example_runtime :: dist_runtime where
  "example_runtime =
     \<lparr>torch_dist_initialized = False, distributed_type = NO, ACTIVE_BACKEND = None,
      backend_act_initialized = False, backend_in_pp_group = False,
      comm = \<lparr>tp_world_size = 1, tp_rank = 0, peer_shards = (\<lambda>r. example_tensor)\<rparr>,
      parse_collect_and_distribute = (\<lambda>t expected. Inr (\<lambda>c t. Inr t, \<lambda>c t. Inr t))\<rparr>"

text \<open>
  Hooks derived from the example: one whose session names an unknown offload
  mode, one in which only \<open>_edit\<close> is unset, one whose editing function changes
  the shape, and one that selects the last leaf and overwrites its elements.
\<close>

definition example_hook_bad_mode :: HookFunction where
  "example_hook_bad_mode =
     example_hook\<lparr>shared_state := Some (example_shared_state\<lparr>offload_mode := ''DISK''\<rparr>)\<rparr>"

definition example_hook_no_edit :: HookFunction where
  "example_hook_no_edit =
     example_hook\<lparr>collect := Some (\<lambda>c t. Inr t), disperse := Some (\<lambda>c t. Inr t),
       offload := Some offload_tensor_to_cpu_fn\<rparr>"

definition example_hook_reshaping :: HookFunction where
  "example_hook_reshaping =
     example_hook\<lparr>editing_function := (\<lambda>current_module inputs ctx mods.
        Inr (inputs\<lparr>shape := [4]\<rparr>))\<rparr>"

definition example_hook_zeroing :: HookFunction where
  "example_hook_zeroing =
     example_hook\<lparr>unpack_idx := - 1,
       editing_function := (\<lambda>current_module inputs ctx mods.
         Inr (inputs\<lparr>data := [0, 0, 0, 0]\<rparr>))\<rparr>"

definition example_outputs :: obj where
  "example_outputs =
     PyTuple [Tensor example_tensor, Scalar PyNone,
              PyList [Tensor (example_tensor\<lparr>data := [5, 6, 7, 8]\<rparr>)]]"

text \<open>
  Rank 1 of a tensor-parallel group of two under \<open>torch.distributed\<close>, with the
  transfer functions of the specification; rank 0 contributes a second two-by-two
  shard. The hook expects the full tensor to have four columns.
\<close>

definition example_tp_runtime :: dist_runtime where
  "example_tp_runtime =
     \<lparr>torch_dist_initialized = True, distributed_type = MULTI_GPU,
      ACTIVE_BACKEND = Some \<lparr>backend_class = TorchDistributedBackend,
        device_mesh = \<lparr>world_size = 2, tp_size = 2, pp_size = 1, dp_size = 1\<rparr>\<rparr>,
      backend_act_initialized = True, backend_in_pp_group = True,
      comm = \<lparr>tp_world_size = 2, tp_rank = 1,
              peer_shards = (\<lambda>r. example_tensor\<lparr>data := [10, 20, 30, 40]\<rparr>)\<rparr>,
      parse_collect_and_distribute = parse_collect_and_distribute_from_tensor\<rparr>"

definition example_tp_hook :: HookFunction where
  "example_tp_hook = example_hook\<lparr>expected_shape := [None, Some 4]\<rparr>"

definition example_tp_hook_concretized :: HookFunction where
  "example_tp_hook_concretized =
     example_tp_hook\<lparr>collect := Some (all_gather_tp 1), disperse := Some (scatter_tp 1),
       edit := Some default_editing_function, offload := Some offload_tensor_to_cpu_fn\<rparr>"

lemma flatten_children_via_dfs:
  assumes "\<And>x order leaves. x \<in> set xs \<Longrightarrow>
     flatten_dfs x (order, leaves) = (node_of x, order @ order_of x, leaves @ leaves_of x)"
  shows "flatten_children xs (order, leaves) =
     (map node_of xs, order @ concat (map order_of xs), leaves @ concat (map leaves_of xs))"
  using assms by (induction xs arbitrary: order leaves) auto

lemma flatten_dfs_eq:
  "flatten_dfs x (order, leaves) = (node_of x, order @ order_of x, leaves @ leaves_of x)"
proof (induction x arbitrary: order leaves)
  case (PyTuple xs)
  then show ?case by (simp add: flatten_children_via_dfs list_update_append)
next
  case (PyList xs)
  then show ?case by (simp add: flatten_children_via_dfs list_update_append)
next
  case (BaseModelOutputWithPast a b c d)
  then show ?case by (simp add: list_update_append)
qed (simp_all add: Let_def)

lemma order_of_first: "order_of x ! 0 = node_of x"
  by (cases x) simp_all

lemma flatten_eq: "flatten x = (node_of x, leaves_of x)"
  by (simp add: flatten_def flatten_dfs_eq order_of_first)

lemma unflatten_children_via_dfs:
  assumes "\<And>x stack. x \<in> set xs \<Longrightarrow>
     unflatten_dfs (node_of x) (stack @ rev (leaves_of x)) = Inr (x, stack)"
  shows "unflatten_children (map node_of xs) (stack @ rev (concat (map leaves_of xs)))
     = Inr (xs, stack)"
  using assms
proof (induction xs arbitrary: stack)
  case Nil
  then show ?case by simp
next
  case (Cons x xs)
  have "unflatten_dfs (node_of x) (stack @ rev (concat (map leaves_of xs)) @ rev (leaves_of x))
      = Inr (x, stack @ rev (concat (map leaves_of xs)))"
    using Cons.prems [of x "stack @ rev (concat (map leaves_of xs))"] by simp
  moreover have "unflatten_children (map node_of xs) (stack @ rev (concat (map leaves_of xs)))
      = Inr (xs, stack)"
    using Cons by simp
  ultimately show ?case by simp
qed

lemma unflatten_dfs_node_of:
  "unflatten_dfs (node_of x) (stack @ rev (leaves_of x)) = Inr (x, stack)"
proof (induction x arbitrary: stack)
  case (PyTuple xs)
  then show ?case by (simp add: unflatten_children_via_dfs TupleNode_unflatten_def)
next
  case (PyList xs)
  then show ?case by (simp add: unflatten_children_via_dfs ListNode_unflatten_def)
next
  case (BaseModelOutputWithPast a b c d)
  have a: "unflatten_dfs (node_of a)
       (stack @ rev (leaves_of d) @ rev (leaves_of c) @ rev (leaves_of b) @ rev (leaves_of a))
     = Inr (a, stack @ rev (leaves_of d) @ rev (leaves_of c) @ rev (leaves_of b))"
    using BaseModelOutputWithPast.IH(1)
      [of "stack @ rev (leaves_of d) @ rev (leaves_of c) @ rev (leaves_of b)"]
    by simp
  have b: "unflatten_dfs (node_of b)
       (stack @ rev (leaves_of d) @ rev (leaves_of c) @ rev (leaves_of b))
     = Inr (b, stack @ rev (leaves_of d) @ rev (leaves_of c))"
    using BaseModelOutputWithPast.IH(2) [of "stack @ rev (leaves_of d) @ rev (leaves_of c)"]
    by simp
  have c: "unflatten_dfs (node_of c) (stack @ rev (leaves_of d) @ rev (leaves_of c))
     = Inr (c, stack @ rev (leaves_of d))"
    using BaseModelOutputWithPast.IH(3) [of "stack @ rev (leaves_of d)"]
    by simp
  have d: "unflatten_dfs (node_of d) (stack @ rev (leaves_of d)) = Inr (d, stack)"
    by (rule BaseModelOutputWithPast.IH(4))
  from a b c d show ?case by simp
qed simp_all

lemma unflatten_with_rest: "unflatten (node_of x) (leaves_of x @ rest) = Inr x"
  using unflatten_dfs_node_of [of x "rev rest"] by (simp add: unflatten_def)

lemma flatten_injective: "flatten x = flatten y \<Longrightarrow> x = y"
  using unflatten_with_rest [of x "[]"] unflatten_with_rest [of y "[]"]
  by (simp add: flatten_eq)

section \<open>The tree codec\<close>

text \<open>
  C1. Round trip of the tree codec: for every object built from tuples, lists,
  \<open>BaseModelOutputWithPast\<close>, tensors and scalars, unflattening the template and
  the leaves that \<open>_flatten\<close> returns succeeds and gives back the object itself:
  the same structure, the same scalars, the same leaves in the same positions.
\<close>

theorem flatten_unflatten_roundtrip:
  "unflatten (fst (flatten x)) (snd (flatten x)) = Inr x"
  using unflatten_with_rest [of x "[]"] by (simp add: flatten_eq)

lemma leaves_of_all_leaf: "list_all is_leaf_obj (leaves_of x)"
  by (induction x) (auto simp: list_all_iff)

lemma length_leaves_of: "length (leaves_of x) = count_leaf_nodes (node_of x)"
proof (induction x)
  case (PyTuple xs)
  then show ?case by (simp add: length_concat comp_def cong: map_cong)
next
  case (PyList xs)
  then show ?case by (simp add: length_concat comp_def cong: map_cong)
qed simp_all

lemma py_getitem_in_set: "py_getitem xs i = Inr x \<Longrightarrow> x \<in> set xs"
  by (auto simp: py_getitem_def Let_def split: if_splits)

lemma unpack_no_assertion: "unpack_layer_outputs self x \<noteq> Inl AssertionError"
proof -
  have "tensor \<noteq> Scalar PyNone"
    if "py_getitem (leaves_of x) (unpack_idx self) = Inr tensor" for tensor
  proof -
    have "tensor \<in> set (leaves_of x)" using that by (rule py_getitem_in_set)
    then have "is_leaf_obj tensor" using leaves_of_all_leaf [of x] by (simp add: list_all_iff)
    then show ?thesis by auto
  qed
  then show ?thesis
    by (auto simp: unpack_layer_outputs_def flatten_eq Let_def py_getitem_def
          split: sum.splits if_splits)
qed

text \<open>
  C10. The leaves that \<open>_flatten\<close> returns are all objects of the registered leaf
  type (tensors; \<open>None\<close> is a scalar and never a leaf), there are as many of them
  as leaf nodes in the template, and \<open>assert tensor is not None\<close> in
  \<open>_unpack_layer_outputs\<close> never fails, whatever the hook and the object.
\<close>

theorem flatten_leaves_are_tensors:
  "list_all is_leaf_obj (snd (flatten x))
   \<and> length (snd (flatten x)) = count_leaf_nodes (fst (flatten x))
   \<and> unpack_layer_outputs self x \<noteq> Inl AssertionError"
  by (simp add: flatten_eq leaves_of_all_leaf length_leaves_of unpack_no_assertion)

section \<open>Node equality\<close>

lemma all_zip_list_all2:
  "length xs = length ys \<Longrightarrow>
     list_all id (map (\<lambda>(a, b). f a b) (zip xs ys)) = list_all2 f xs ys"
  by (auto simp: list_all_iff list_all2_iff)

lemma list_all2_eq_on_set:
  "(\<And>x y. x \<in> set xs \<Longrightarrow> f x y = g x y) \<Longrightarrow> list_all2 f xs ys = list_all2 g xs ys"
  by (induction xs arbitrary: ys) (auto simp: list_all2_Cons1)

lemma eq_dfs_typed: "eq_dfs n1 n2 = typed_node_equal n1 n2"
proof (induction n1 arbitrary: n2)
  case (TensorNode v)
  then show ?case by (cases n2) (simp_all add: eq_dfs.simps)
next
  case (TupleNode xs)
  have "list_all2 eq_dfs xs ys = list_all2 typed_node_equal xs ys" for ys
    using TupleNode by (intro list_all2_eq_on_set) auto
  then show ?case
    by (cases n2)
       (auto simp: eq_dfs.simps [of "TupleNode xs"] all_zip_list_all2 dest: list_all2_lengthD)
next
  case (ListNode xs)
  have "list_all2 eq_dfs xs ys = list_all2 typed_node_equal xs ys" for ys
    using ListNode by (intro list_all2_eq_on_set) auto
  then show ?case
    by (cases n2)
       (auto simp: eq_dfs.simps [of "ListNode xs"] all_zip_list_all2 dest: list_all2_lengthD)
next
  case (BaseModelOutputWithPastNode xs)
  have "list_all2 eq_dfs xs ys = list_all2 typed_node_equal xs ys" for ys
    using BaseModelOutputWithPastNode by (intro list_all2_eq_on_set) auto
  then show ?case
    by (cases n2)
       (auto simp: eq_dfs.simps [of "BaseModelOutputWithPastNode xs"] all_zip_list_all2
          dest: list_all2_lengthD)
next
  case (ScalarNode a)
  show ?case
    by (cases n2) (auto simp: eq_dfs.simps [of "ScalarNode a"])
qed

text \<open>
  C5 as stated fails in two places. When both trees are single leaf nodes, \<open>==\<close>
  runs \<open>TensorNode.__eq__\<close>, which compares the stored shapes, while the
  specification calls any two leaf nodes equal. And \<open>_dfs\<close> compares the types of
  two nodes before their values, so the scalar nodes \<open>1\<close> and \<open>True\<close> inside two
  tuples are unequal although \<open>1 == True\<close> holds by value.
\<close>

theorem node_equality_counterexample:
  "\<not> TensorNode_eq (TensorNode [2, 3]) (TensorNode [4])
   \<and> spec_node_equal (TensorNode [2, 3]) (TensorNode [4])
   \<and> \<not> InternalNode_eq (TupleNode [ScalarNode (PyInt 1)]) (TupleNode [ScalarNode (PyBool True)])
   \<and> spec_node_equal (TupleNode [ScalarNode (PyInt 1)]) (TupleNode [ScalarNode (PyBool True)])"
  by (simp add: InternalNode_eq_def eq_dfs_typed)

text \<open>
  C5, amended. When the left tree is an internal node, \<open>InternalNode.__eq__\<close>
  decides, and it holds exactly if the two trees have the same node kind at every
  position, the same child count at every internal node and recursively equal
  children, where two scalar nodes are equal exactly if they have the same Python
  type and equal values, and leaf nodes below the root are always equal, their
  stored shape never compared. Two single leaf nodes are equal exactly if their
  stored shapes are equal.
\<close>

theorem node_equality:
  "(is_internal_node self \<longrightarrow> InternalNode_eq self other = typed_node_equal self other)
   \<and> TensorNode_eq (TensorNode v) (TensorNode w) = (v = w)"
  by (simp add: InternalNode_eq_def eq_dfs_typed)

theorem node_equality_witness:
  "is_internal_node (TupleNode [TensorNode [2, 3], ScalarNode (PyInt 1)])
   \<and> InternalNode_eq (TupleNode [TensorNode [2, 3], ScalarNode (PyInt 1)])
        (TupleNode [TensorNode [4], ScalarNode (PyInt 1)])
   \<and> \<not> InternalNode_eq (TupleNode [TensorNode [2, 3], ScalarNode (PyInt 1)])
        (TupleNode [TensorNode [4], ScalarNode (PyBool True)])
   \<and> \<not> TensorNode_eq (TensorNode [2, 3]) (TensorNode [4])"
  using node_equality [of "TupleNode [TensorNode [2, 3], ScalarNode (PyInt 1)]"
          "TupleNode [TensorNode [4], ScalarNode (PyInt 1)]" "[2, 3]" "[4]"]
        node_equality [of "TupleNode [TensorNode [2, 3], ScalarNode (PyInt 1)]"
          "TupleNode [TensorNode [4], ScalarNode (PyBool True)]" "[2, 3]" "[4]"]
  by simp

section \<open>The device mesh\<close>

text \<open>
  C7. \<open>initialize_distributed_backend(world_size, tp, pp, dp)\<close> succeeds exactly
  if \<open>world_size == tp * pp * dp\<close>; otherwise it fails with the assertion error
  and \<open>_ACTIVE_BACKEND\<close> is what it was before the call.
\<close>

theorem mesh_validity:
  "(fst (initialize_distributed_backend rt ws tp pp dp) = Inr () \<longleftrightarrow> ws = tp * pp * dp)
   \<and> (ws \<noteq> tp * pp * dp \<longrightarrow>
        initialize_distributed_backend rt ws tp pp dp = (Inl AssertionError, ACTIVE_BACKEND rt))"
  by (auto simp: initialize_distributed_backend_def parse_backend_def GPUDeviceMesh_build_def
        Let_def)

theorem mesh_validity_witness:
  "fst (initialize_distributed_backend example_runtime 8 2 2 2) = Inr ()
   \<and> (8 :: int) = 2 * 2 * 2
   \<and> (7 :: int) \<noteq> 2 * 2 * 2
   \<and> initialize_distributed_backend example_runtime 7 2 2 2 = (Inl AssertionError, None)"
  using mesh_validity [of example_runtime 8 2 2 2] mesh_validity [of example_runtime 7 2 2 2]
  by (simp add: example_runtime_def)

section \<open>The tensor pipeline\<close>

text \<open>
  C3. Whatever the runtime functions do, a tensor that \<open>_template_handle_tensor\<close>
  returns has the shape of its input; and when the four calls succeed with a
  tensor of another shape, the call fails with the assertion error of the shape
  check instead of returning it.
\<close>

theorem shape_invariant:
  "(fst (template_handle_tensor rt self m t) = Inr t' \<longrightarrow> shape t' = shape t)
   \<and> (fst (check_functions rt self t) = Inr ()
        \<and> fst (run_functions rt (snd (check_functions rt self t)) m t) = Inr t3
        \<and> shape t3 \<noteq> shape t
      \<longrightarrow> fst (template_handle_tensor rt self m t) = Inl AssertionError)"
  by (auto simp: template_handle_tensor_def Let_def split: prod.splits sum.splits if_splits)

lemmas pipeline_defs =
  template_handle_tensor_def check_functions_def concretize_functions_def
  run_functions_def concretize_offload_function_def concretize_editing_function_def
  parse_editing_function_def default_editing_function_def
  offload_tensor_to_cpu_def offload_tensor_to_gpu_def offload_tensor_def offload_guard_def
  sink_store_def sink_entry_def Let_def

lemmas example_defs =
  example_hook_def example_runtime_def example_shared_state_def example_tensor_def

theorem shape_invariant_witness:
  "fst (template_handle_tensor example_runtime example_hook None example_tensor)
     = Inr example_tensor
   \<and> shape example_tensor = shape example_tensor
   \<and> fst (check_functions example_runtime example_hook_reshaping example_tensor) = Inr ()
   \<and> fst (run_functions example_runtime
             (snd (check_functions example_runtime example_hook_reshaping example_tensor))
             None example_tensor) = Inr (example_tensor\<lparr>shape := [4]\<rparr>)
   \<and> shape (example_tensor\<lparr>shape := [4]\<rparr>) \<noteq> shape example_tensor
   \<and> fst (template_handle_tensor example_runtime example_hook_reshaping None example_tensor)
       = Inl AssertionError"
proof -
  have ok: "fst (template_handle_tensor example_runtime example_hook None example_tensor)
     = Inr example_tensor"
    by (simp add: pipeline_defs example_defs)
  have chk: "fst (check_functions example_runtime example_hook_reshaping example_tensor) = Inr ()"
    by (simp add: pipeline_defs example_defs example_hook_reshaping_def)
  have run: "fst (run_functions example_runtime
             (snd (check_functions example_runtime example_hook_reshaping example_tensor))
             None example_tensor) = Inr (example_tensor\<lparr>shape := [4]\<rparr>)"
    by (simp add: pipeline_defs example_defs example_hook_reshaping_def)
  have ne: "shape (example_tensor\<lparr>shape := [4]\<rparr>) \<noteq> shape example_tensor"
    by (simp add: example_tensor_def)
  from shape_invariant [of example_runtime example_hook None example_tensor example_tensor]
    shape_invariant [of example_runtime example_hook_reshaping None example_tensor
      example_tensor "example_tensor\<lparr>shape := [4]\<rparr>"]
    ok chk run ne
  show ?thesis by simp
qed

lemma handle_tensor_shape:
  "fst (template_handle_tensor rt self m t) = Inr t' \<Longrightarrow> shape t' = shape t"
  by (auto simp: template_handle_tensor_def Let_def split: prod.splits sum.splits if_splits)

lemma check_functions_partial:
  "\<not> (Option.is_none (collect self) \<and> Option.is_none (disperse self)
       \<and> Option.is_none (edit self) \<and> Option.is_none (offload self))
   \<Longrightarrow> check_functions rt self t = (Inr (), self)"
  by (auto simp: check_functions_def Let_def)

text \<open>
  C2 fails on the code. The second branch of the check tests
  \<open>not all(fns_are_undefined)\<close>, which holds whenever the first branch was not
  taken, so the \<open>raise\<close> of the third branch is never reached
  (\<open>check_functions_partial\<close>). A first call whose session names an unknown offload
  mode fails with \<open>KeyError\<close> and leaves \<open>_collect\<close>, \<open>_disperse\<close> and \<open>_edit\<close> set
  and \<open>_offload\<close> unset; the next call does not raise the partial-definition
  exception but runs \<open>_collect\<close> and fails with \<open>TypeError\<close> at the call of
  \<open>_offload\<close>. With only \<open>_edit\<close> unset, \<open>_collect\<close> and \<open>_offload\<close> run and the
  sink holds the captured tensor when \<open>TypeError\<close> is raised.
\<close>

theorem partial_state_not_detected:
  "fst (template_handle_tensor example_runtime example_hook_bad_mode None example_tensor)
     = Inl KeyError
   \<and> (let self1 = snd (template_handle_tensor example_runtime example_hook_bad_mode None
                         example_tensor)
      in \<not> Option.is_none (collect self1) \<and> \<not> Option.is_none (disperse self1)
         \<and> \<not> Option.is_none (edit self1) \<and> Option.is_none (offload self1)
         \<and> fst (template_handle_tensor example_runtime self1 None example_tensor)
             = Inl TypeError)
   \<and> fst (template_handle_tensor example_runtime example_hook_no_edit None example_tensor)
       = Inl TypeError
   \<and> sink_entry (snd (template_handle_tensor example_runtime example_hook_no_edit None
                        example_tensor)) ''layers.0''
       = Some [detach_to_cpu example_tensor]"
  by (simp add: pipeline_defs example_defs example_hook_bad_mode_def example_hook_no_edit_def)

section \<open>The offload sink\<close>

lemma sink_store_entry:
  "entry_list (sink_store sink name captured name') =
     (if name' = name then entry_list (sink name) @ [captured] else entry_list (sink name'))"
  by (auto simp: sink_store_def entry_list_def split: option.splits)

lemma sink_store_same: "sink_store sink name captured name \<noteq> None"
  by (auto simp: sink_store_def split: option.splits)

lemma call_offload_open:
  assumes "offload_guard rt = Inr True" "shared_state self = Some ss" "output_ptr ss = Some sink"
  shows "call_offload f rt self t =
     (Inr (), self\<lparr>shared_state := Some (ss\<lparr>output_ptr :=
         Some (sink_store sink (hook_module_name self) (capture_of f t))\<rparr>)\<rparr>)"
  using assms
  by (cases f) (simp_all add: offload_tensor_to_cpu_def offload_tensor_to_gpu_def offload_tensor_def)

lemma offload_calls_open:
  assumes "offload_guard rt = Inr True" "shared_state self = Some ss" "output_ptr ss = Some sink"
  shows "fst (offload_calls f rt self ts) = Inr ()
    \<and> hook_module_name (snd (offload_calls f rt self ts)) = hook_module_name self
    \<and> (\<forall>name. entry_list (sink_entry (snd (offload_calls f rt self ts)) name) =
         (if name = hook_module_name self then entry_list (sink name) @ map (capture_of f) ts
          else entry_list (sink name)))
    \<and> (ts \<noteq> [] \<longrightarrow>
         sink_entry (snd (offload_calls f rt self ts)) (hook_module_name self) \<noteq> None)"
  using assms
proof (induction ts arbitrary: self ss sink)
  case Nil
  then show ?case by (simp add: sink_entry_def)
next
  case (Cons t ts)
  let ?sink' = "sink_store sink (hook_module_name self) (capture_of f t)"
  let ?ss' = "ss\<lparr>output_ptr := Some ?sink'\<rparr>"
  let ?self' = "self\<lparr>shared_state := Some ?ss'\<rparr>"
  have step: "call_offload f rt self t = (Inr (), ?self')"
    using Cons.prems by (rule call_offload_open)
  have IH: "fst (offload_calls f rt ?self' ts) = Inr ()
    \<and> hook_module_name (snd (offload_calls f rt ?self' ts)) = hook_module_name ?self'
    \<and> (\<forall>name. entry_list (sink_entry (snd (offload_calls f rt ?self' ts)) name) =
         (if name = hook_module_name ?self'
          then entry_list (?sink' name) @ map (capture_of f) ts
          else entry_list (?sink' name)))
    \<and> (ts \<noteq> [] \<longrightarrow>
         sink_entry (snd (offload_calls f rt ?self' ts)) (hook_module_name ?self') \<noteq> None)"
    by (rule Cons.IH [of ?self' ?ss' ?sink']) (use Cons.prems in simp_all)
  have nonempty:
    "sink_entry (snd (offload_calls f rt ?self' ts)) (hook_module_name self) \<noteq> None"
  proof (cases ts)
    case Nil
    then show ?thesis by (simp add: sink_entry_def sink_store_same)
  next
    case (Cons a list)
    then show ?thesis using IH by simp
  qed
  show ?case using IH nonempty by (simp add: step sink_store_entry)
qed

text \<open>
  C6. With the guard open and the sink set, \<open>n \<ge> 1\<close> calls of the concretized
  offload function with the tensors \<open>t1 .. tn\<close> succeed and leave, under the
  module name of the hook, the list that was there before followed by the \<open>n\<close>
  captured tensors in call order; from a sink without an entry for the module
  that is exactly the \<open>n\<close> captured tensors.
\<close>

theorem offload_accumulates:
  assumes "offload_guard rt = Inr True" "shared_state self = Some ss" "output_ptr ss = Some sink"
    and "ts \<noteq> []"
  shows "fst (offload_calls f rt self ts) = Inr ()
    \<and> sink_entry (snd (offload_calls f rt self ts)) (hook_module_name self)
        = Some (entry_list (sink (hook_module_name self)) @ map (capture_of f) ts)
    \<and> (sink (hook_module_name self) = None \<longrightarrow>
         sink_entry (snd (offload_calls f rt self ts)) (hook_module_name self)
           = Some (map (capture_of f) ts))"
proof -
  let ?r = "offload_calls f rt self ts"
  from offload_calls_open [OF assms(1-3), of f ts]
  have ok: "fst ?r = Inr ()"
    and ent: "entry_list (sink_entry (snd ?r) (hook_module_name self)) =
       entry_list (sink (hook_module_name self)) @ map (capture_of f) ts"
    and ne: "sink_entry (snd ?r) (hook_module_name self) \<noteq> None"
    using assms(4) by auto
  from ne ent have "sink_entry (snd ?r) (hook_module_name self)
        = Some (entry_list (sink (hook_module_name self)) @ map (capture_of f) ts)"
    by (auto simp: entry_list_def)
  with ok show ?thesis by (simp add: entry_list_def)
qed

theorem offload_accumulates_witness:
  "offload_guard example_runtime = Inr True
   \<and> shared_state example_hook = Some example_shared_state
   \<and> output_ptr example_shared_state = Some Map.empty
   \<and> [example_tensor, example_tensor\<lparr>data := [5, 6, 7, 8]\<rparr>] \<noteq> []
   \<and> fst (offload_calls offload_tensor_to_cpu_fn example_runtime example_hook
             [example_tensor, example_tensor\<lparr>data := [5, 6, 7, 8]\<rparr>]) = Inr ()
   \<and> sink_entry (snd (offload_calls offload_tensor_to_cpu_fn example_runtime example_hook
             [example_tensor, example_tensor\<lparr>data := [5, 6, 7, 8]\<rparr>])) ''layers.0''
       = Some [detach_to_cpu example_tensor,
               detach_to_cpu (example_tensor\<lparr>data := [5, 6, 7, 8]\<rparr>)]"
proof -
  have g: "offload_guard example_runtime = Inr True"
    by (simp add: offload_guard_def example_runtime_def)
  have s: "shared_state example_hook = Some example_shared_state"
    by (simp add: example_hook_def)
  have p: "output_ptr example_shared_state = Some Map.empty"
    by (simp add: example_shared_state_def)
  have n: "[example_tensor, example_tensor\<lparr>data := [5, 6, 7, 8]\<rparr>] \<noteq> []"
    by simp
  have name: "hook_module_name example_hook = ''layers.0''"
    by (simp add: example_hook_def)
  from offload_accumulates [OF g s p n, of offload_tensor_to_cpu_fn] g s p name
  show ?thesis by (simp add: entry_list_def)
qed

section \<open>Unpacking and repacking\<close>

lemma py_getitem_out_of_range:
  "\<not> in_range xs i \<Longrightarrow> py_getitem xs i = Inl IndexError"
  by (auto simp: py_getitem_def in_range_def Let_def)

text \<open>
  C8. When the configured index selects no leaf of the flattened outputs (as for
  every index when the outputs hold no tensor), \<open>_unpack_layer_outputs\<close> fails
  with the \<open>IndexError\<close> of the list access, and
  \<open>_template_handle_layer_outputs\<close> fails with it before any runtime function is
  concretized or run: the hook is unchanged.
\<close>

theorem missing_leaf_fails:
  "\<not> in_range (snd (flatten x)) (unpack_idx self)
   \<Longrightarrow> unpack_layer_outputs self x = Inl IndexError
     \<and> template_handle_layer_outputs rt self m x = (Inl IndexError, self)"
  by (simp add: unpack_layer_outputs_def template_handle_layer_outputs_def flatten_eq Let_def
        py_getitem_out_of_range)

theorem missing_leaf_fails_witness:
  "\<not> in_range (snd (flatten (PyTuple [Scalar PyNone, PyList [Scalar (PyInt 3)]])))
        (unpack_idx example_hook)
   \<and> unpack_layer_outputs example_hook (PyTuple [Scalar PyNone, PyList [Scalar (PyInt 3)]])
       = Inl IndexError
   \<and> template_handle_layer_outputs example_runtime example_hook None
         (PyTuple [Scalar PyNone, PyList [Scalar (PyInt 3)]])
       = (Inl IndexError, example_hook)"
proof -
  have h: "\<not> in_range (snd (flatten (PyTuple [Scalar PyNone, PyList [Scalar (PyInt 3)]])))
        (unpack_idx example_hook)"
    by (simp add: flatten_eq in_range_def example_hook_def)
  from missing_leaf_fails [OF h, of example_runtime None] h show ?thesis by simp
qed

lemma unflatten_children_replaced:
  assumes IH: "\<And>x stack L. x \<in> set xs \<Longrightarrow> list_all2 same_leaf (leaves_of x) L \<Longrightarrow>
       \<exists>y. unflatten_dfs (node_of x) (stack @ rev L) = Inr (y, stack)
            \<and> node_of y = node_of x \<and> leaves_of y = L"
    and L: "list_all2 same_leaf (concat (map leaves_of xs)) L"
  shows "\<exists>ys. unflatten_children (map node_of xs) (stack @ rev L) = Inr (ys, stack)
            \<and> map node_of ys = map node_of xs \<and> concat (map leaves_of ys) = L"
  using assms
proof (induction xs arbitrary: stack L)
  case Nil
  then show ?case by simp
next
  case (Cons x xs)
  from Cons.prems(2) obtain us vs where L: "L = us @ vs"
    and us: "list_all2 same_leaf (leaves_of x) us"
    and vs: "list_all2 same_leaf (concat (map leaves_of xs)) vs"
    by (auto simp: list_all2_append1)
  from Cons.prems(1) [of x us "stack @ rev vs"] us
  obtain y where y: "unflatten_dfs (node_of x) ((stack @ rev vs) @ rev us) = Inr (y, stack @ rev vs)"
    "node_of y = node_of x" "leaves_of y = us"
    by auto
  from Cons.IH [of vs stack] Cons.prems(1) vs
  obtain ys where ys: "unflatten_children (map node_of xs) (stack @ rev vs) = Inr (ys, stack)"
    "map node_of ys = map node_of xs" "concat (map leaves_of ys) = vs"
    by auto
  have "unflatten_children (map node_of (x # xs)) (stack @ rev L) = Inr (y # ys, stack)"
    using y(1) ys(1) L by simp
  then show ?case using y ys L by auto
qed

lemma unflatten_dfs_replaced:
  "list_all2 same_leaf (leaves_of x) L \<Longrightarrow>
     \<exists>y. unflatten_dfs (node_of x) (stack @ rev L) = Inr (y, stack)
          \<and> node_of y = node_of x \<and> leaves_of y = L"
proof (induction x arbitrary: stack L)
  case (Tensor t)
  then obtain b where "L = [b]" "same_leaf (Tensor t) b"
    by (auto simp: list_all2_Cons1)
  then show ?case by (cases b) (auto simp: same_leaf_def)
next
  case (PyTuple xs)
  from unflatten_children_replaced [of xs L stack] PyTuple
  obtain ys where "unflatten_children (map node_of xs) (stack @ rev L) = Inr (ys, stack)"
    "map node_of ys = map node_of xs" "concat (map leaves_of ys) = L"
    by auto
  then show ?case by (auto simp: TupleNode_unflatten_def intro!: exI [of _ "PyTuple ys"])
next
  case (PyList xs)
  from unflatten_children_replaced [of xs L stack] PyList
  obtain ys where "unflatten_children (map node_of xs) (stack @ rev L) = Inr (ys, stack)"
    "map node_of ys = map node_of xs" "concat (map leaves_of ys) = L"
    by auto
  then show ?case by (auto simp: ListNode_unflatten_def intro!: exI [of _ "PyList ys"])
next
  case (BaseModelOutputWithPast a b c d)
  have "\<exists>ys. unflatten_children (map node_of [a, b, c, d]) (stack @ rev L) = Inr (ys, stack)
            \<and> map node_of ys = map node_of [a, b, c, d] \<and> concat (map leaves_of ys) = L"
  proof (rule unflatten_children_replaced)
    show "list_all2 same_leaf (concat (map leaves_of [a, b, c, d])) L"
      using BaseModelOutputWithPast.prems by simp
  next
    fix x stack L
    assume "x \<in> set [a, b, c, d]" "list_all2 same_leaf (leaves_of x) L"
    then show "\<exists>y. unflatten_dfs (node_of x) (stack @ rev L) = Inr (y, stack)
          \<and> node_of y = node_of x \<and> leaves_of y = L"
      using BaseModelOutputWithPast.IH by auto
  qed
  then obtain ys where ys: "unflatten_children [node_of a, node_of b, node_of c, node_of d]
       (stack @ rev L) = Inr (ys, stack)"
    "map node_of ys = [node_of a, node_of b, node_of c, node_of d]"
    "concat (map leaves_of ys) = L"
    by auto
  from ys(2) obtain a' b' c' d' where "ys = [a', b', c', d']"
    by (auto simp: map_eq_Cons_conv)
  then show ?case using ys
    by (auto intro!: exI [of _ "BaseModelOutputWithPast a' b' c' d'"])
next
  case (Scalar s)
  then show ?case by simp
qed

lemma unflatten_replaced:
  assumes "list_all2 same_leaf (leaves_of x) L"
  shows "\<exists>y. unflatten (node_of x) (L @ rest) = Inr y \<and> flatten y = (node_of x, L)"
proof -
  from unflatten_dfs_replaced [OF assms, of "rev rest"]
  obtain y where "unflatten_dfs (node_of x) (rev rest @ rev L) = Inr (y, rev rest)"
    "node_of y = node_of x" "leaves_of y = L"
    by auto
  then show ?thesis by (auto simp: unflatten_def flatten_eq)
qed

lemma same_leaf_refl: "list_all2 same_leaf (leaves_of x) (leaves_of x)"
  using leaves_of_all_leaf [of x]
  by (auto simp: list_all2_conv_all_nth list_all_iff same_leaf_def)

lemma py_slice_bound_index:
  assumes "in_range L i"
  shows "py_slice_bound L i = py_index L i"
proof (cases "i < 0")
  case True
  with assms have "0 \<le> i + int (length L)" "\<not> int (length L) < i + int (length L)"
    by (simp_all add: in_range_def)
  with True show ?thesis by (simp add: py_slice_bound_def py_index_def Let_def)
next
  case False
  with assms have "\<not> int (length L) < i" by (simp add: in_range_def)
  with False show ?thesis by (simp add: py_slice_bound_def py_index_def Let_def)
qed

lemma py_slice_bound_next:
  assumes "in_range L i" "i \<noteq> - 1"
  shows "py_slice_bound L (i + 1) = Suc (py_index L i)"
proof (cases "i < 0")
  case True
  with assms have neg: "i + 1 < 0" and lo: "0 \<le> i + int (length L)"
    and hi: "\<not> int (length L) < i + 1 + int (length L)"
    by (simp_all add: in_range_def)
  from lo have "nat (i + 1 + int (length L)) = Suc (nat (i + int (length L)))"
    by linarith
  with True neg lo hi show ?thesis by (simp add: py_slice_bound_def py_index_def Let_def)
next
  case False
  with assms have hi: "\<not> int (length L) < i + 1" and lo: "0 \<le> i"
    by (simp_all add: in_range_def)
  from lo have "nat (i + 1) = Suc (nat i)" by linarith
  with False lo hi show ?thesis by (simp add: py_slice_bound_def py_index_def Let_def)
qed

lemma py_slices_update:
  assumes "in_range L i"
  shows "\<exists>rest. py_slice_to L i @ [e] @ py_slice_from L (i + 1) = L[py_index L i := e] @ rest"
proof (cases "i = - 1")
  case True
  let ?k = "py_index L i"
  from assms True have n: "0 < length L" by (cases L) (simp_all add: in_range_def)
  have k: "Suc ?k = length L"
  proof -
    have "nat (- 1 + int (length L)) = length L - 1" by linarith
    then show ?thesis using True n by (simp add: py_index_def)
  qed
  have left: "py_slice_to L i = take ?k L"
    using py_slice_bound_index [OF assms] by (simp add: py_slice_to_def)
  have right: "py_slice_from L (i + 1) = L"
    using True by (simp add: py_slice_from_def py_slice_bound_def Let_def)
  have "L[?k := e] = take ?k L @ [e] @ drop (Suc ?k) L"
    using k by (intro upd_conv_take_nth_drop [THEN trans]) auto
  then have "L[?k := e] = take ?k L @ [e]" using k by simp
  then show ?thesis using left right by simp
next
  case False
  let ?k = "py_index L i"
  from assms have k: "?k < length L"
    by (simp add: in_range_def py_index_def) linarith
  have left: "py_slice_to L i = take ?k L"
    using py_slice_bound_index [OF assms] by (simp add: py_slice_to_def)
  have right: "py_slice_from L (i + 1) = drop (Suc ?k) L"
    using py_slice_bound_next [OF assms False] by (simp add: py_slice_from_def)
  have "py_slice_to L i @ [e] @ py_slice_from L (i + 1) = L[?k := e]"
    using k left right by (simp add: upd_conv_take_nth_drop)
  then show ?thesis by simp
qed

lemma py_getitem_in_range:
  "in_range xs i \<Longrightarrow> py_getitem xs i = Inr (xs ! py_index xs i)"
  by (auto simp: py_getitem_def in_range_def py_index_def Let_def)

lemma py_index_less: "in_range xs i \<Longrightarrow> py_index xs i < length xs"
  by (auto simp: in_range_def py_index_def)

text \<open>
  C9. For an index in range, selecting the leaf \<open>Tensor t\<close>, and a pipeline that
  returns \<open>t'\<close> for it, \<open>_template_handle_layer_outputs\<close> returns an object whose
  template is the template of the original (the same structure, scalars and leaf
  shapes) and whose leaves are the original leaves with the one at the index
  replaced by \<open>t'\<close>. An object is determined by its template and leaves
  (\<open>flatten_injective\<close>), so this is the original with that one leaf replaced.
\<close>

theorem repack_frame:
  assumes rng: "in_range (snd (flatten x)) (unpack_idx self)"
    and leaf: "snd (flatten x) ! py_index (snd (flatten x)) (unpack_idx self) = Tensor t"
    and run: "fst (template_handle_tensor rt self m t) = Inr t'"
  shows "\<exists>y. fst (template_handle_layer_outputs rt self m x) = Inr y
          \<and> snd (template_handle_layer_outputs rt self m x)
              = snd (template_handle_tensor rt self m t)
          \<and> flatten y = (fst (flatten x),
                (snd (flatten x))[py_index (snd (flatten x)) (unpack_idx self) := Tensor t'])"
proof -
  let ?L = "leaves_of x" and ?i = "unpack_idx self"
  let ?k = "py_index ?L ?i"
  from rng have rng': "in_range ?L ?i" by (simp add: flatten_eq)
  from leaf have leaf': "?L ! ?k = Tensor t" by (simp add: flatten_eq)
  have k: "?k < length ?L" using rng' by (rule py_index_less)
  have sh: "shape t' = shape t" using run by (rule handle_tensor_shape)
  have unpack: "unpack_layer_outputs self x =
      Inr (Tensor t, repack (node_of x) (py_slice_to ?L ?i) (py_slice_from ?L (?i + 1)))"
    using py_getitem_in_range [OF rng'] leaf'
    by (simp add: unpack_layer_outputs_def flatten_eq Let_def)
  obtain rest where rest:
    "py_slice_to ?L ?i @ [Tensor t'] @ py_slice_from ?L (?i + 1) = ?L[?k := Tensor t'] @ rest"
    using py_slices_update [OF rng'] by blast
  have "same_leaf (?L ! ?k) (Tensor t')" using leaf' sh by (simp add: same_leaf_def)
  then have "list_all2 same_leaf (?L[?k := ?L ! ?k]) (?L[?k := Tensor t'])"
    using same_leaf_refl [of x] by (intro list_all2_update_cong) auto
  then have "list_all2 same_leaf ?L (?L[?k := Tensor t'])" by simp
  from unflatten_replaced [OF this, of rest]
  obtain y where y: "unflatten (node_of x) (?L[?k := Tensor t'] @ rest) = Inr y"
    "flatten y = (node_of x, ?L[?k := Tensor t'])"
    by auto
  obtain self' where run': "template_handle_tensor rt self m t = (Inr t', self')"
    using run by (cases "template_handle_tensor rt self m t") auto
  have "template_handle_layer_outputs rt self m x = (Inr y, self')"
    using unpack run' rest y(1)
    by (simp add: template_handle_layer_outputs_def repack_def)
  then show ?thesis using y(2) run' by (simp add: flatten_eq)
qed


theorem repack_frame_witness:
  "in_range (snd (flatten example_outputs)) (unpack_idx example_hook_zeroing)
   \<and> snd (flatten example_outputs)
        ! py_index (snd (flatten example_outputs)) (unpack_idx example_hook_zeroing)
       = Tensor (example_tensor\<lparr>data := [5, 6, 7, 8]\<rparr>)
   \<and> fst (template_handle_tensor example_runtime example_hook_zeroing None
             (example_tensor\<lparr>data := [5, 6, 7, 8]\<rparr>))
       = Inr (example_tensor\<lparr>data := [0, 0, 0, 0]\<rparr>)
   \<and> (\<exists>y. fst (template_handle_layer_outputs example_runtime example_hook_zeroing None
                  example_outputs) = Inr y
          \<and> flatten y =
              (TupleNode [TensorNode [2, 2], ScalarNode PyNone, ListNode [TensorNode [2, 2]]],
               [Tensor example_tensor, Tensor (example_tensor\<lparr>data := [0, 0, 0, 0]\<rparr>)]))"
proof -
  have r: "in_range (snd (flatten example_outputs)) (unpack_idx example_hook_zeroing)"
    by (simp add: flatten_eq in_range_def example_outputs_def example_hook_zeroing_def
          example_hook_def)
  have l: "snd (flatten example_outputs)
        ! py_index (snd (flatten example_outputs)) (unpack_idx example_hook_zeroing)
       = Tensor (example_tensor\<lparr>data := [5, 6, 7, 8]\<rparr>)"
    by (simp add: flatten_eq py_index_def example_outputs_def example_hook_zeroing_def
          example_hook_def)
  have p: "fst (template_handle_tensor example_runtime example_hook_zeroing None
             (example_tensor\<lparr>data := [5, 6, 7, 8]\<rparr>))
       = Inr (example_tensor\<lparr>data := [0, 0, 0, 0]\<rparr>)"
    by (simp add: pipeline_defs example_defs example_hook_zeroing_def)
  have f: "fst (flatten example_outputs)
       = TupleNode [TensorNode [2, 2], ScalarNode PyNone, ListNode [TensorNode [2, 2]]]"
    by (simp add: flatten_eq example_outputs_def example_tensor_def)
  have u: "(snd (flatten example_outputs))
        [py_index (snd (flatten example_outputs)) (unpack_idx example_hook_zeroing)
          := Tensor (example_tensor\<lparr>data := [0, 0, 0, 0]\<rparr>)]
       = [Tensor example_tensor, Tensor (example_tensor\<lparr>data := [0, 0, 0, 0]\<rparr>)]"
    by (simp add: flatten_eq py_index_def example_outputs_def example_hook_zeroing_def
          example_hook_def)
  from repack_frame [OF r l p] r l p show ?thesis unfolding f u by blast
qed

section \<open>Collect and disperse\<close>

lemma concat_uniform_length:
  "\<forall>xs\<in>set xss. length xs = g \<Longrightarrow> length (concat xss) = length xss * g"
  by (induction xss) auto

lemma concat_uniform_nth:
  "\<forall>xs\<in>set xss. length xs = g \<Longrightarrow> k < length xss \<Longrightarrow> r < g \<Longrightarrow>
     concat xss ! (k * g + r) = xss ! k ! r"
proof (induction xss arbitrary: k)
  case Nil
  then show ?case by simp
next
  case (Cons xs xss)
  show ?case
  proof (cases k)
    case 0
    then show ?thesis using Cons.prems by (simp add: nth_append)
  next
    case (Suc k')
    then have "concat (xs # xss) ! (k * g + r) = concat xss ! (k' * g + r)"
      using Cons.prems by (simp add: nth_append)
    then show ?thesis using Cons Suc by simp
  qed
qed

lemma concat_uniform_block:
  "\<forall>xs\<in>set xss. length xs = w \<Longrightarrow> k < length xss \<Longrightarrow> block w k (concat xss) = xss ! k"
proof (induction xss arbitrary: k)
  case Nil
  then show ?case by simp
next
  case (Cons xs xss)
  show ?case
  proof (cases k)
    case 0
    then show ?thesis using Cons.prems by (simp add: block_def)
  next
    case (Suc k')
    then have "block w k (concat (xs # xss)) = block w k' (concat xss)"
      using Cons.prems by (simp add: block_def)
    then show ?thesis using Cons Suc by simp
  qed
qed

lemma length_block:
  "(Suc k) * w \<le> length xs \<Longrightarrow> length (block w k xs) = w"
  by (simp add: block_def)

lemma concat_blocks:
  "length xs = n * w \<Longrightarrow> concat (map (\<lambda>k. block w k xs) [0..<n]) = xs"
proof (induction n arbitrary: xs)
  case 0
  then show ?case by simp
next
  case (Suc n)
  let ?ys = "take (n * w) xs"
  have len: "length ?ys = n * w" using Suc.prems by simp
  have same: "block w k xs = block w k ?ys" if "k < n" for k
  proof -
    have "Suc k * w \<le> n * w" using that by (simp add: Suc_leI mult_le_mono1 del: mult_Suc)
    then have "k * w + w \<le> n * w" by simp
    then show ?thesis
      by (simp add: block_def take_drop min_def)
  qed
  have "concat (map (\<lambda>k. block w k xs) [0..<n]) = concat (map (\<lambda>k. block w k ?ys) [0..<n])"
    using same by (intro arg_cong [where f = concat] map_cong) auto
  also have "\<dots> = ?ys" using Suc.IH [OF len] .
  finally have "concat (map (\<lambda>k. block w k xs) [0..<Suc n]) = ?ys @ block w n xs"
    by simp
  also have "block w n xs = drop (n * w) xs"
    using Suc.prems by (simp add: block_def)
  finally show ?case by simp
qed

lemma prod_list_split:
  assumes "axis < length shp"
  shows "prod_list shp =
     prod_list (take axis shp) * ((shp ! axis) * prod_list (drop (Suc axis) shp))"
proof -
  from assms have "shp = take axis shp @ shp ! axis # drop (Suc axis) shp"
    by (rule id_take_nth_drop)
  then have "prod_list shp = prod_list (take axis shp @ shp ! axis # drop (Suc axis) shp)"
    by simp
  then show ?thesis by simp
qed

lemma concat_map_concat: "concat (map concat xsss) = concat (concat xsss)"
  by (induction xsss) auto

lemma gathered_block:
  fixes shards :: "tensor list"
  assumes len: "\<forall>s\<in>set shards. length (data s) = outer * w"
    and k: "k < outer" and r: "r < length shards"
  shows "block w (k * length shards + r)
           (concat (map (\<lambda>k. concat (map (\<lambda>s. block w k (data s)) shards)) [0..<outer]))
         = block w k (data (shards ! r))"
proof -
  let ?g = "length shards"
  let ?rows = "map (\<lambda>k. map (\<lambda>s. block w k (data s)) shards) [0..<outer]"
  let ?BL = "concat ?rows"
  have rows_len: "\<forall>row\<in>set ?rows. length row = ?g" by auto
  have BL_len: "length ?BL = outer * ?g"
    using concat_uniform_length [OF rows_len] by simp
  have blk: "length (block w j (data s)) = w" if "s \<in> set shards" "j < outer" for s j
  proof -
    have "Suc j * w \<le> outer * w" using that(2) by (simp add: Suc_leI mult_le_mono1 del: mult_Suc)
    then show ?thesis using len that(1) by (simp add: length_block del: mult_Suc)
  qed
  have BL_blocks: "\<forall>b\<in>set ?BL. length b = w" using blk by auto
  have "Suc k * ?g \<le> outer * ?g" using k by (simp add: Suc_leI mult_le_mono1 del: mult_Suc)
  then have idx: "k * ?g + r < length ?BL" using r BL_len by simp
  have "?BL ! (k * ?g + r) = ?rows ! k ! r"
    using concat_uniform_nth [OF rows_len, of k r] k r by simp
  also have "\<dots> = block w k (data (shards ! r))" using k r by simp
  finally have nth: "?BL ! (k * ?g + r) = block w k (data (shards ! r))" .
  have "concat (map (\<lambda>k. concat (map (\<lambda>s. block w k (data s)) shards)) [0..<outer]) = concat ?BL"
    using concat_map_concat [of ?rows] by (simp add: comp_def)
  then show ?thesis
    using concat_uniform_block [OF BL_blocks idx] nth by simp
qed

lemma all_gather_tp_valid:
  assumes ax: "axis < length (shape t)"
    and shapes: "list_all (\<lambda>s. shape s = shape t)
       (map (\<lambda>r. if r = tp_rank c then t else peer_shards c r) [0..<tp_world_size c])"
  shows "all_gather_tp axis c t =
     Inr (t\<lparr>shape := (shape t)[axis := tp_world_size c * (shape t ! axis)],
            data := concat (map (\<lambda>k. concat (map (\<lambda>s. block ((shape t ! axis) * prod_list (drop (Suc axis) (shape t))) k (data s))
                      (map (\<lambda>r. if r = tp_rank c then t else peer_shards c r) [0..<tp_world_size c])))
                                [0..<prod_list (take axis (shape t))])\<rparr>)"
  unfolding all_gather_tp_def Let_def using ax shapes
  by (simp only: not_le [symmetric] if_False if_True simp_thms)

lemma scatter_tp_valid:
  assumes ax: "axis < length (shape t)"
    and g: "tp_world_size c \<noteq> 0" and dvd: "(shape t ! axis) mod tp_world_size c = 0"
  shows "scatter_tp axis c t =
     Inr (t\<lparr>shape := (shape t)[axis := (shape t ! axis) div tp_world_size c],
            data := concat (map (\<lambda>k. block ((shape t ! axis) div tp_world_size c
                                          * prod_list (drop (Suc axis) (shape t)))
                                       (k * tp_world_size c + tp_rank c) (data t))
                      [0..<prod_list (take axis (shape t))])\<rparr>)"
  unfolding scatter_tp_def Let_def using ax g dvd
  by (simp only: not_le [symmetric] if_False if_True simp_thms)

lemma scatter_all_gather:
  assumes "valid_shards axis c t"
  shows "\<exists>full. all_gather_tp axis c t = Inr full \<and> scatter_tp axis c full = Inr t"
proof -
  let ?g = "tp_world_size c" and ?r = "tp_rank c"
  let ?d = "shape t ! axis"
  let ?inner = "prod_list (drop (Suc axis) (shape t))"
  let ?outer = "prod_list (take axis (shape t))"
  let ?w = "?d * ?inner"
  let ?shards = "map (\<lambda>r. if r = ?r then t else peer_shards c r) [0..<?g]"
  let ?F = "concat (map (\<lambda>k. concat (map (\<lambda>s. block ?w k (data s)) ?shards)) [0..<?outer])"
  let ?full = "t\<lparr>shape := (shape t)[axis := ?g * ?d], data := ?F\<rparr>"
  from assms have ax: "axis < length (shape t)" and r: "?r < ?g"
    and lt: "length (data t) = prod_list (shape t)"
    and peers: "\<forall>r<?g. r \<noteq> ?r \<longrightarrow> shape (peer_shards c r) = shape t \<and>
                  length (data (peer_shards c r)) = prod_list (shape t)"
    by (auto simp: valid_shards_def list_all_iff)
  have total: "prod_list (shape t) = ?outer * ?w" using prod_list_split [OF ax] .
  have shapes: "list_all (\<lambda>s. shape s = shape t) ?shards"
    using peers by (auto simp: list_all_iff)
  have lens: "\<forall>s\<in>set ?shards. length (data s) = ?outer * ?w" using peers lt total by auto
  have gather: "all_gather_tp axis c t = Inr ?full"
    using all_gather_tp_valid [OF ax shapes] .
  have g_len: "length ?shards = ?g" by simp
  have local: "?shards ! ?r = t" using r by simp
  have each: "block ?w (k * ?g + ?r) ?F = block ?w k (data t)" if "k < ?outer" for k
    using gathered_block [OF lens that, of ?r] r unfolding g_len local by blast
  have "concat (map (\<lambda>k. block ?w (k * ?g + ?r) ?F) [0..<?outer])
      = concat (map (\<lambda>k. block ?w k (data t)) [0..<?outer])"
    using each by (intro arg_cong [where f = concat] map_cong) auto
  also have "\<dots> = data t" using concat_blocks [of "data t" ?outer ?w] lt total by simp
  finally have dat: "concat (map (\<lambda>k. block ?w (k * ?g + ?r) ?F) [0..<?outer]) = data t" .
  have g0: "?g \<noteq> 0" using r by simp
  have ax': "axis < length (shape ?full)" using ax by simp
  have sh: "shape ?full ! axis = ?g * ?d" using ax by simp
  have dvd: "(shape ?full ! axis) mod tp_world_size c = 0" unfolding sh by simp
  have dv: "(shape ?full ! axis) div ?g = ?d" unfolding sh using g0 by simp
  have inner': "prod_list (drop (Suc axis) (shape ?full)) = ?inner" by simp
  have outer': "prod_list (take axis (shape ?full)) = ?outer" by simp
  have dfull: "data ?full = ?F" by simp
  have "scatter_tp axis c ?full =
      Inr (?full\<lparr>shape := (shape ?full)[axis := ?d],
            data := concat (map (\<lambda>k. block ?w (k * ?g + ?r) ?F) [0..<?outer])\<rparr>)"
    using scatter_tp_valid [OF ax' g0 dvd] unfolding dv inner' outer' dfull .
  also have "\<dots> = Inr (?full\<lparr>shape := (shape ?full)[axis := ?d], data := data t\<rparr>)"
    unfolding dat ..
  also have "?full\<lparr>shape := (shape ?full)[axis := ?d], data := data t\<rparr> = t"
    by simp
  finally show ?thesis using gather by blast
qed

lemma offload_guard_total:
  "(torch_dist_initialized rt \<longrightarrow> ACTIVE_BACKEND rt \<noteq> None) \<Longrightarrow> \<exists>b. offload_guard rt = Inr b"
  by (auto simp: offload_guard_def activation_parallel_is_initialized_def
        in_pipeline_parallel_group_def split: option.splits bool.splits)

lemma call_offload_keeps:
  assumes "shared_state self = Some ss" "output_ptr ss = Some sink" "offload_guard rt = Inr b"
  shows "\<exists>self' ss'. call_offload f rt self t = (Inr (), self') \<and> edit self' = edit self
           \<and> disperse self' = disperse self \<and> shared_state self' = Some ss'"
  using assms
  by (cases f; cases b)
     (simp_all add: offload_tensor_to_cpu_def offload_tensor_to_gpu_def offload_tensor_def)

lemma run_functions_identity:
  assumes "collect self = Some c" "disperse self = Some d"
    and "edit self = Some default_editing_function" "offload self = Some f"
    and "shared_state self = Some ss" "output_ptr ss = Some sink"
    and "torch_dist_initialized rt \<longrightarrow> ACTIVE_BACKEND rt \<noteq> None"
    and "c (comm rt) t = Inr full" "d (comm rt) full = Inr t"
  shows "fst (run_functions rt self m t) = Inr t"
proof -
  obtain b where "offload_guard rt = Inr b"
    using offload_guard_total [OF assms(7)] by blast
  from call_offload_keeps [OF assms(5,6) this, of f full]
  obtain self' ss' where "call_offload f rt self full = (Inr (), self')"
    "edit self' = edit self" "disperse self' = disperse self" "shared_state self' = Some ss'"
    by blast
  then show ?thesis
    using assms by (simp add: run_functions_def default_editing_function_def)
qed

lemma handle_tensor_concretized:
  assumes "collect self = Some c" "disperse self = Some d"
    and "edit self = Some default_editing_function" "offload self = Some f"
    and "shared_state self = Some ss" "output_ptr ss = Some sink"
    and "torch_dist_initialized rt \<longrightarrow> ACTIVE_BACKEND rt \<noteq> None"
    and "c (comm rt) t = Inr full" "d (comm rt) full = Inr t"
  shows "fst (template_handle_tensor rt self m t) = Inr t"
proof -
  have chk: "check_functions rt self t = (Inr (), self)"
    using assms(1) by (intro check_functions_partial) simp
  have "fst (run_functions rt self m t) = Inr t"
    using assms by (rule run_functions_identity)
  then obtain self2 where "run_functions rt self m t = (Inr t, self2)"
    by (cases "run_functions rt self m t") auto
  then show ?thesis
    by (simp add: template_handle_tensor_def chk)
qed

lemma handle_tensor_first_call:
  assumes none: "Option.is_none (collect self)" "Option.is_none (disperse self)"
      "Option.is_none (edit self)" "Option.is_none (offload self)"
    and ed: "editing_function self = default_editing_function"
    and parse: "parse_collect_and_distribute rt t (expected_shape self) = Inr (c, d)"
    and mode: "offload_mode ss = ''CPU'' \<or> offload_mode ss = ''GPU''"
    and env: "shared_state self = Some ss" "output_ptr ss = Some sink"
      "torch_dist_initialized rt \<longrightarrow> ACTIVE_BACKEND rt \<noteq> None"
    and inv: "c (comm rt) t = Inr full" "d (comm rt) full = Inr t"
  shows "fst (template_handle_tensor rt self m t) = Inr t"
proof -
  obtain f where f: "concretize_offload_function
      (self\<lparr>collect := Some c, disperse := Some d, edit := Some default_editing_function\<rparr>) = Inr f"
    using mode env(1) by (auto simp: concretize_offload_function_def)
  let ?self' = "self\<lparr>collect := Some c, disperse := Some d,
      edit := Some default_editing_function, offload := Some f\<rparr>"
  have chk: "check_functions rt self t = (Inr (), ?self')"
    using none parse ed f
    by (simp add: check_functions_def concretize_functions_def Let_def
          concretize_editing_function_def parse_editing_function_def)
  have "fst (run_functions rt ?self' m t) = Inr t"
    by (rule run_functions_identity [where c = c and d = d and f = f and ss = ss
          and sink = sink and full = full])
       (use env inv in simp_all)
  then obtain self2 where "run_functions rt ?self' m t = (Inr t, self2)"
    by (cases "run_functions rt ?self' m t") auto
  then show ?thesis
    by (simp add: template_handle_tensor_def chk)
qed

text \<open>
  C4. In a session whose sink is set and whose backend is active whenever
  \<open>torch.distributed\<close> is: \<open>disperse\<close> after \<open>collect\<close> gives back every valid
  shard, for any group size of at least one and any axis; and with the default
  editing function \<open>_template_handle_tensor\<close> returns its input tensor itself
  (shape, elements, device and autograd flag), on the first call, where the
  functions are concretized from the expected shape, and on later calls, where
  they are the ones an earlier call chose.
\<close>

theorem identity_edit_pipeline:
  assumes env: "shared_state self = Some ss" "output_ptr ss = Some sink"
    "torch_dist_initialized rt \<longrightarrow> ACTIVE_BACKEND rt \<noteq> None"
  shows "(valid_shards axis (comm rt) t \<longrightarrow>
           (\<exists>full. all_gather_tp axis (comm rt) t = Inr full
                  \<and> scatter_tp axis (comm rt) full = Inr t))
   \<and> (Option.is_none (collect self) \<and> Option.is_none (disperse self)
       \<and> Option.is_none (edit self) \<and> Option.is_none (offload self)
       \<and> editing_function self = default_editing_function
       \<and> parse_collect_and_distribute rt = parse_collect_and_distribute_from_tensor
       \<and> (offload_mode ss = ''CPU'' \<or> offload_mode ss = ''GPU'')
       \<and> length (expected_shape self) = length (shape t)
       \<and> (sharded_axes (shape t) (expected_shape self) = []
          \<or> sharded_axes (shape t) (expected_shape self) = [axis]
            \<and> valid_shards axis (comm rt) t)
      \<longrightarrow> fst (template_handle_tensor rt self m t) = Inr t)
   \<and> (edit self = Some default_editing_function \<and> offload self = Some f
       \<and> (collect self = Some unity \<and> disperse self = Some unity
          \<or> collect self = Some (all_gather_tp axis) \<and> disperse self = Some (scatter_tp axis)
            \<and> valid_shards axis (comm rt) t)
      \<longrightarrow> fst (template_handle_tensor rt self m t) = Inr t)"
proof (intro conjI impI)
  assume "valid_shards axis (comm rt) t"
  then show "\<exists>full. all_gather_tp axis (comm rt) t = Inr full
                  \<and> scatter_tp axis (comm rt) full = Inr t"
    by (rule scatter_all_gather)
next
  assume a: "Option.is_none (collect self) \<and> Option.is_none (disperse self)
       \<and> Option.is_none (edit self) \<and> Option.is_none (offload self)
       \<and> editing_function self = default_editing_function
       \<and> parse_collect_and_distribute rt = parse_collect_and_distribute_from_tensor
       \<and> (offload_mode ss = ''CPU'' \<or> offload_mode ss = ''GPU'')
       \<and> length (expected_shape self) = length (shape t)
       \<and> (sharded_axes (shape t) (expected_shape self) = []
          \<or> sharded_axes (shape t) (expected_shape self) = [axis]
            \<and> valid_shards axis (comm rt) t)"
  then consider
      (plain) "sharded_axes (shape t) (expected_shape self) = []"
    | (sharded) "sharded_axes (shape t) (expected_shape self) = [axis]"
        "valid_shards axis (comm rt) t"
    by blast
  then show "fst (template_handle_tensor rt self m t) = Inr t"
  proof cases
    case plain
    have p: "parse_collect_and_distribute rt t (expected_shape self) = Inr (unity, unity)"
      using a plain by (simp add: parse_collect_and_distribute_from_tensor_def)
    show ?thesis
      by (rule handle_tensor_first_call [OF _ _ _ _ _ p, where full = t and ss = ss])
         (use a env in \<open>simp_all add: unity_def\<close>)
  next
    case sharded
    have p: "parse_collect_and_distribute rt t (expected_shape self)
        = Inr (all_gather_tp axis, scatter_tp axis)"
      using a sharded(1) by (simp add: parse_collect_and_distribute_from_tensor_def)
    obtain full where full: "all_gather_tp axis (comm rt) t = Inr full"
      "scatter_tp axis (comm rt) full = Inr t"
      using scatter_all_gather [OF sharded(2)] by blast
    show ?thesis
      by (rule handle_tensor_first_call [OF _ _ _ _ _ p, where full = full and ss = ss])
         (use a env full in simp_all)
  qed
next
  assume b: "edit self = Some default_editing_function \<and> offload self = Some f
       \<and> (collect self = Some unity \<and> disperse self = Some unity
          \<or> collect self = Some (all_gather_tp axis) \<and> disperse self = Some (scatter_tp axis)
            \<and> valid_shards axis (comm rt) t)"
  then consider
      (plain) "collect self = Some unity" "disperse self = Some unity"
    | (sharded) "collect self = Some (all_gather_tp axis)"
        "disperse self = Some (scatter_tp axis)" "valid_shards axis (comm rt) t"
    by blast
  then show "fst (template_handle_tensor rt self m t) = Inr t"
  proof cases
    case plain
    show ?thesis
      by (rule handle_tensor_concretized [OF plain, where full = t and f = f and ss = ss])
         (use b env in \<open>simp_all add: unity_def\<close>)
  next
    case sharded
    obtain full where full: "all_gather_tp axis (comm rt) t = Inr full"
      "scatter_tp axis (comm rt) full = Inr t"
      using scatter_all_gather [OF sharded(3)] by blast
    show ?thesis
      by (rule handle_tensor_concretized [OF sharded(1,2), where full = full and f = f and ss = ss])
         (use b env full in simp_all)
  qed
qed


theorem identity_edit_pipeline_witness:
  "shared_state example_tp_hook = Some example_shared_state
   \<and> output_ptr example_shared_state = Some Map.empty
   \<and> torch_dist_initialized example_tp_runtime
   \<and> ACTIVE_BACKEND example_tp_runtime \<noteq> None
   \<and> valid_shards 1 (comm example_tp_runtime) example_tensor
   \<and> sharded_axes (shape example_tensor) (expected_shape example_tp_hook) = [1]
   \<and> all_gather_tp 1 (comm example_tp_runtime) example_tensor
       = Inr (example_tensor\<lparr>shape := [2, 4], data := [10, 20, 1, 2, 30, 40, 3, 4]\<rparr>)
   \<and> scatter_tp 1 (comm example_tp_runtime)
         (example_tensor\<lparr>shape := [2, 4], data := [10, 20, 1, 2, 30, 40, 3, 4]\<rparr>)
       = Inr example_tensor
   \<and> fst (template_handle_tensor example_tp_runtime example_tp_hook None example_tensor)
       = Inr example_tensor
   \<and> fst (template_handle_tensor example_tp_runtime example_tp_hook_concretized None
             example_tensor)
       = Inr example_tensor"
proof -
  have upt2: "[0..<2] = [0, 1]" by (simp add: upt_rec)
  have s: "shared_state example_tp_hook = Some example_shared_state"
    by (simp add: example_tp_hook_def example_hook_def)
  have s': "shared_state example_tp_hook_concretized = Some example_shared_state"
    by (simp add: example_tp_hook_concretized_def example_tp_hook_def example_hook_def)
  have p: "output_ptr example_shared_state = Some Map.empty"
    by (simp add: example_shared_state_def)
  have b: "torch_dist_initialized example_tp_runtime \<longrightarrow> ACTIVE_BACKEND example_tp_runtime \<noteq> None"
    by (simp add: example_tp_runtime_def)
  have v: "valid_shards 1 (comm example_tp_runtime) example_tensor"
    by (simp add: valid_shards_def example_tp_runtime_def example_tensor_def upt2)
  have a: "sharded_axes (shape example_tensor) (expected_shape example_tp_hook) = [1]"
    by (simp add: sharded_axes_def example_tp_hook_def example_hook_def example_tensor_def upt2)
  have g: "all_gather_tp 1 (comm example_tp_runtime) example_tensor
       = Inr (example_tensor\<lparr>shape := [2, 4], data := [10, 20, 1, 2, 30, 40, 3, 4]\<rparr>)"
    by (simp add: all_gather_tp_def block_def example_tp_runtime_def example_tensor_def upt2
          Let_def)
  have first: "Option.is_none (collect example_tp_hook) \<and> Option.is_none (disperse example_tp_hook)
       \<and> Option.is_none (edit example_tp_hook) \<and> Option.is_none (offload example_tp_hook)
       \<and> editing_function example_tp_hook = default_editing_function
       \<and> parse_collect_and_distribute example_tp_runtime = parse_collect_and_distribute_from_tensor
       \<and> (offload_mode example_shared_state = ''CPU'' \<or> offload_mode example_shared_state = ''GPU'')
       \<and> length (expected_shape example_tp_hook) = length (shape example_tensor)"
    by (simp add: example_tp_hook_def example_hook_def example_tp_runtime_def
          example_shared_state_def example_tensor_def)
  have cached: "edit example_tp_hook_concretized = Some default_editing_function
       \<and> offload example_tp_hook_concretized = Some offload_tensor_to_cpu_fn
       \<and> collect example_tp_hook_concretized = Some (all_gather_tp 1)
       \<and> disperse example_tp_hook_concretized = Some (scatter_tp 1)"
    by (simp add: example_tp_hook_concretized_def)
  from identity_edit_pipeline [OF s p b, where axis = 1 and t = example_tensor and m = None]
    v a g first
  have r1: "scatter_tp 1 (comm example_tp_runtime)
         (example_tensor\<lparr>shape := [2, 4], data := [10, 20, 1, 2, 30, 40, 3, 4]\<rparr>)
       = Inr example_tensor"
    and r2: "fst (template_handle_tensor example_tp_runtime example_tp_hook None example_tensor)
       = Inr example_tensor"
    by auto
  from identity_edit_pipeline [OF s' p b, where axis = 1 and t = example_tensor and m = None
      and f = offload_tensor_to_cpu_fn]
    v cached
  have r3: "fst (template_handle_tensor example_tp_runtime example_tp_hook_concretized None
             example_tensor) = Inr example_tensor"
    by auto
  have b': "torch_dist_initialized example_tp_runtime"
    "ACTIVE_BACKEND example_tp_runtime \<noteq> None"
    by (simp_all add: example_tp_runtime_def)
  from s p b' v a g r1 r2 r3 show ?thesis by blast
qed

end
